theory Spec2Isabelle
  imports Main
begin

section \<open>Candidate parsing\<close>

text \<open>
  The main endpoint of \<^verbatim>\<open>src/main.ts\<close> (and, with the same text, of the other
  revision \<^verbatim>\<open>src/unnamed/part_000\<close>) turns the entries of the query string into the
  list \<^verbatim>\<open>params\<close>:
  \<^verbatim>\<open>
  for (const [key, value] of url.searchParams.entries()) {
    if ((allowedParams as readonly string[]).includes(key)) {
      params.push({ type: key as T_Params["type"], value });
    } else if (params.length > 0) {
      params[params.length - 1].value += `&${key}=${value}`;
    }
  }
  \<close>
  The fields \<^verbatim>\<open>type\<close> and \<^verbatim>\<open>value\<close> of \<^verbatim>\<open>T_Params\<close> are called \<open>param_type\<close> and
  \<open>param_value\<close> here, since both words are reserved in Isabelle.
\<close>

definition allowedParams :: "string list" where
  "allowedParams = [''v'', ''c'', ''x'']"

record T_Params =
  param_type :: string
  param_value :: string

definition parse_step :: "T_Params list \<Rightarrow> string \<times> string \<Rightarrow> T_Params list" where
  "parse_step params entry =
     (case entry of (key, val) \<Rightarrow>
        if key \<in> set allowedParams then
          params @ [\<lparr>param_type = key, param_value = val\<rparr>]
        else if length params > 0 then
          params[length params - 1 :=
            (params ! (length params - 1))
              \<lparr>param_value :=
                 param_value (params ! (length params - 1)) @ ''&'' @ key @ ''='' @ val\<rparr>]
        else params)"

definition parse_params :: "(string \<times> string) list \<Rightarrow> T_Params list" where
  "parse_params entries = foldl parse_step [] entries"

section \<open>Values, exceptions and the platform\<close>

text \<open>
  A value of type \<^verbatim>\<open>string | undefined\<close> is a \<open>string option\<close>. The conditions
  \<^verbatim>\<open>if (streamUrl)\<close>, \<^verbatim>\<open>if (!vid)\<close> and \<^verbatim>\<open>if (customHeaders)\<close> test JavaScript
  truthiness: \<^verbatim>\<open>undefined\<close>, \<^verbatim>\<open>null\<close> and the empty string are falsy.
\<close>

definition truthy :: "string option \<Rightarrow> bool" where
  "truthy r = (case r of None \<Rightarrow> False | Some str \<Rightarrow> str \<noteq> [])"

text \<open>A thrown value, or the reason of a rejected promise.\<close>

datatype exn = Exn string

datatype http_method = HEAD | GET

text \<open>The arguments of one \<^verbatim>\<open>fetch(cleanUrl, options)\<close>.\<close>

record request =
  req_url :: string
  req_method :: http_method
  req_headers :: "(string \<times> string) list option"

text \<open>
  A \<^verbatim>\<open>URL\<close> object. The validator only reads and deletes search parameters and
  serialises the object again, so everything outside the query is kept as one string.
\<close>

record url =
  url_base :: string
  searchParams :: "(string \<times> string) list"

text \<open>
  What \<^verbatim>\<open>src/main.ts\<close> calls but does not define: the \<^verbatim>\<open>URL\<close> constructor (\<open>None\<close>
  when it throws) and serialiser, \<^verbatim>\<open>fetch\<close> (a status code, or a rejection),
  \<^verbatim>\<open>session.resolveURL(url)\<close> projected to \<^verbatim>\<open>?.payload?.videoId\<close>,
  \<^verbatim>\<open>session.getInfo(vid)\<close> projected to \<^verbatim>\<open>?.streaming_data?.hls_manifest_url\<close>, the
  clock that drives the timers of the caches, and \<^verbatim>\<open>Deno.memoryUsage()\<close> (formatted).
  The calls act on an outside world \<open>'w\<close> about which nothing is assumed, so the same
  request may be answered differently each time.
\<close>

record 'w platform =
  new_URL :: "string \<Rightarrow> url option"
  URL_toString :: "url \<Rightarrow> string"
  fetch :: "request \<Rightarrow> 'w \<Rightarrow> (exn + nat) \<times> 'w"
  resolveURL :: "string \<Rightarrow> 'w \<Rightarrow> (exn + string option) \<times> 'w"
  getInfo :: "string \<Rightarrow> 'w \<Rightarrow> (exn + string option) \<times> 'w"
  Date_now :: "'w \<Rightarrow> nat"
  memoryUsage :: "'w \<Rightarrow> (string \<times> string) list"

text \<open>
  The configuration read from the environment at start-up. \<^verbatim>\<open>Number(...)\<close> of the two
  cache settings is taken to be a natural number.
\<close>

record config =
  STREAM_VALIDATION_CACHE_TTL :: nat
  VIDEO_INFO_CACHE_SIZE :: nat
  CUSTOM_X_HEADER :: "string option"
  USER_AGENT :: string

definition MINUTE :: nat where
  "MINUTE = 60000"

definition USE_CACHE :: "config \<Rightarrow> bool" where
  "USE_CACHE cfg = (STREAM_VALIDATION_CACHE_TTL cfg \<noteq> 0 \<or> VIDEO_INFO_CACHE_SIZE cfg \<noteq> 0)"

section \<open>State: the caches and a record of the calls made\<close>

text \<open>
  The stores that memoized results live in: the two caches \<^verbatim>\<open>src/main.ts\<close> constructs,
  and the private \<^verbatim>\<open>Map\<close> that \<^verbatim>\<open>memoize\<close> creates for a function whose \<^verbatim>\<open>cache\<close>
  option is \<^verbatim>\<open>undefined\<close> (when \<^verbatim>\<open>USE_CACHE\<close> is false).
\<close>

datatype store =
    STREAM_VALIDATION_CACHE
  | VIDEO_INFO_CACHE
  | Map_validateStream
  | Map_getVideoInfo
  | Map_getVideoId

text \<open>
  What a request does, in order: a candidate handed to \<^verbatim>\<open>getHslStream\<close>, a call of
  one of the three memoized functions, a call that reaches the platform, and the
  \<^verbatim>\<open>console.error\<close> of a \<^verbatim>\<open>catch\<close> block, recorded with the error it caught (the
  wording of the message is left out, and so is the output of \<^verbatim>\<open>console.log\<close>).
\<close>

datatype event =
    Dispatch T_Params
  | Invoke_validateStream string
  | Invoke_getVideoInfo string
  | Invoke_getVideoId string
  | Call_fetch request
  | Call_resolveURL string
  | Call_getInfo string
  | Console_error exn

text \<open>An entry of a store: key, memoized result, time of insertion.\<close>

type_synonym entry = "string \<times> string option \<times> nat"

record 'w state =
  world :: 'w
  stores :: "store \<Rightarrow> entry list"
  trace :: "event list"

type_synonym ('a, 'w) action = "'w state \<Rightarrow> (exn + 'a) \<times> 'w state"

definition log :: "event \<Rightarrow> 'w state \<Rightarrow> 'w state" where
  "log e s = s\<lparr>trace := trace s @ [e]\<rparr>"

text \<open>
  Every \<^verbatim>\<open>catch (error)\<close> block of the source prints the error with \<^verbatim>\<open>console.error\<close>
  and falls off the end of its function, which then returns \<^verbatim>\<open>undefined\<close>.
\<close>

definition try_catch :: "('a option, 'w) action \<Rightarrow> ('a option, 'w) action" where
  "try_catch body s =
     (case body s of
        (Inl e, s') \<Rightarrow> (Inr None, log (Console_error e) s')
      | (Inr r, s') \<Rightarrow> (Inr r, s'))"

definition do_fetch :: "'w platform \<Rightarrow> request \<Rightarrow> (nat, 'w) action" where
  "do_fetch env req s =
     (case fetch env req (world s) of
        (r, w') \<Rightarrow> (r, (log (Call_fetch req) s)\<lparr>world := w'\<rparr>))"

definition do_resolveURL :: "'w platform \<Rightarrow> string \<Rightarrow> (string option, 'w) action" where
  "do_resolveURL env u s =
     (case resolveURL env u (world s) of
        (r, w') \<Rightarrow> (r, (log (Call_resolveURL u) s)\<lparr>world := w'\<rparr>))"

definition do_getInfo :: "'w platform \<Rightarrow> string \<Rightarrow> (string option, 'w) action" where
  "do_getInfo env vid s =
     (case getInfo env vid (world s) of
        (r, w') \<Rightarrow> (r, (log (Call_getInfo vid) s)\<lparr>world := w'\<rparr>))"

section \<open>The caches and \<open>memoize\<close>\<close>

text \<open>
  Modelled from the spec: the classes \<^verbatim>\<open>LruCache\<close> and \<^verbatim>\<open>TtlCache\<close> and the function
  \<^verbatim>\<open>memoize\<close> are imported from \<^verbatim>\<open>@std/cache\<close>; their code is not among the sources.
  A time-bounded cache (\<^verbatim>\<open>TtlCache\<close>, constructed with a time to live in milliseconds)
  drops an entry once that time has passed since its insertion, whatever its use, and
  has no bound on its size. A capacity-bounded cache (\<^verbatim>\<open>LruCache\<close>, constructed with a
  maximum number of entries) never drops an entry for its age; a lookup makes the
  entry the most recently used one, and an insertion that takes the cache over its
  maximum evicts the least recently used entry. A plain \<^verbatim>\<open>Map\<close> keeps everything.
  A store is the list of its entries, least recently used (or oldest) first.
\<close>

datatype cache_class = LruCache nat | TtlCache nat | PlainMap

fun live :: "cache_class \<Rightarrow> nat \<Rightarrow> entry list \<Rightarrow> entry list" where
  "live (TtlCache ttl) now es = filter (\<lambda>e. now < snd (snd e) + ttl) es"
| "live (LruCache maxSize) now es = es"
| "live PlainMap now es = es"

definition cache_size :: "cache_class \<Rightarrow> nat \<Rightarrow> entry list \<Rightarrow> nat" where
  "cache_size cls now es = length (live cls now es)"

definition cache_get :: "cache_class \<Rightarrow> nat \<Rightarrow> string \<Rightarrow> entry list \<Rightarrow> string option option" where
  "cache_get cls now key es = map_option fst (map_of (live cls now es) key)"

fun cache_touch :: "cache_class \<Rightarrow> string \<Rightarrow> entry list \<Rightarrow> entry list" where
  "cache_touch (LruCache maxSize) key es =
     filter (\<lambda>e. fst e \<noteq> key) es @ filter (\<lambda>e. fst e = key) es"
| "cache_touch (TtlCache ttl) key es = es"
| "cache_touch PlainMap key es = es"

definition cache_delete :: "string \<Rightarrow> entry list \<Rightarrow> entry list" where
  "cache_delete key es = filter (\<lambda>e. fst e \<noteq> key) es"

fun cache_set :: "cache_class \<Rightarrow> nat \<Rightarrow> string \<Rightarrow> string option \<Rightarrow> entry list \<Rightarrow> entry list" where
  "cache_set (LruCache maxSize) now key v es =
     (let es' = cache_delete key es @ [(key, v, now)]
      in if length es' > maxSize then tl es' else es')"
| "cache_set (TtlCache ttl) now key v es = cache_delete key es @ [(key, v, now)]"
| "cache_set PlainMap now key v es = cache_delete key es @ [(key, v, now)]"

text \<open>
  \<^verbatim>\<open>memoize(fn, { cache, getKey })\<close>: a live entry for the key is returned without
  calling \<^verbatim>\<open>fn\<close>; otherwise \<^verbatim>\<open>fn\<close> is called once and its promise is stored under the
  key at the time of the call. A promise that rejects is removed from the store again.
  Within one request every promise is awaited at once, so the model stores the
  settled result.
\<close>

definition memoize ::
  "'w platform \<Rightarrow> cache_class \<Rightarrow> store \<Rightarrow> (string \<Rightarrow> string) \<Rightarrow>
   (string \<Rightarrow> (string option, 'w) action) \<Rightarrow> string \<Rightarrow> (string option, 'w) action" where
  "memoize env cls st getKey fn arg s =
     (let key = getKey arg; now = Date_now env (world s) in
      (case cache_get cls now key (stores s st) of
         Some v \<Rightarrow> (Inr v, s\<lparr>stores := (stores s)(st := cache_touch cls key (stores s st))\<rparr>)
       | None \<Rightarrow>
          (case fn arg s of
             (Inr v, s') \<Rightarrow>
               (Inr v, s'\<lparr>stores := (stores s')(st := cache_set cls now key v (stores s' st))\<rparr>)
           | (Inl e, s') \<Rightarrow>
               (Inl e, s'\<lparr>stores := (stores s')(st :=
                  cache_delete key (cache_set cls now key None (stores s' st)))\<rparr>))))"

text \<open>
  The caches as \<^verbatim>\<open>src/main.ts\<close> constructs them (lines 30 to 46):
  \<^verbatim>\<open>
  const STREAM_VALIDATION_CACHE = new LruCache<...>(STREAM_VALIDATION_CACHE_TTL * MINUTE);
  const VIDEO_INFO_CACHE = new TtlCache<...>(VIDEO_INFO_CACHE_SIZE * MINUTE);
  \<close>
\<close>

fun cache_class_of :: "config \<Rightarrow> store \<Rightarrow> cache_class" where
  "cache_class_of cfg STREAM_VALIDATION_CACHE = LruCache (STREAM_VALIDATION_CACHE_TTL cfg * MINUTE)"
| "cache_class_of cfg VIDEO_INFO_CACHE = TtlCache (VIDEO_INFO_CACHE_SIZE cfg * MINUTE)"
| "cache_class_of cfg Map_validateStream = PlainMap"
| "cache_class_of cfg Map_getVideoInfo = PlainMap"
| "cache_class_of cfg Map_getVideoId = PlainMap"

section \<open>The stream validator\<close>

text \<open>\<^verbatim>\<open>s.split(c)\<close> and \<^verbatim>\<open>parts.join(c)\<close> for a separator of one character.\<close>

fun split :: "char \<Rightarrow> string \<Rightarrow> string list" where
  "split c [] = [[]]"
| "split c (x # xs) =
     (if x = c then [] # split c xs
      else (case split c xs of
              [] \<Rightarrow> [[x]]
            | y # ys \<Rightarrow> (x # y) # ys))"

fun join :: "char \<Rightarrow> string list \<Rightarrow> string" where
  "join c [] = []"
| "join c [x] = x"
| "join c (x # y # ys) = x @ c # join c (y # ys)"

text \<open>\<^verbatim>\<open>headers[key] = v\<close> on an object whose keys are kept in insertion order.\<close>

fun set_header :: "string \<Rightarrow> string \<Rightarrow> (string \<times> string) list \<Rightarrow> (string \<times> string) list" where
  "set_header k v [] = [(k, v)]"
| "set_header k v (h # hs) = (if fst h = k then (k, v) # hs else h # set_header k v hs)"

text \<open>
  The callback of \<^verbatim>\<open>customHeaders.split(",").forEach\<close>:
  \<^verbatim>\<open>
  const [key, ...valueParts] = pair.split(":");
  if (key && valueParts.length) { headers[key] = valueParts.join(":"); }
  \<close>
\<close>

definition apply_pair :: "string \<Rightarrow> (string \<times> string) list \<Rightarrow> (string \<times> string) list" where
  "apply_pair pair headers =
     (case split CHR '':'' pair of
        [] \<Rightarrow> headers
      | key # valueParts \<Rightarrow>
          if key \<noteq> [] \<and> valueParts \<noteq> [] then set_header key (join CHR '':'' valueParts) headers
          else headers)"

definition apply_custom_headers :: "string \<Rightarrow> (string \<times> string) list \<Rightarrow> (string \<times> string) list" where
  "apply_custom_headers customHeaders headers = fold apply_pair (split CHR '','' customHeaders) headers"

definition customHeaderKey :: "config \<Rightarrow> string" where
  "customHeaderKey cfg =
     (case CUSTOM_X_HEADER cfg of
        None \<Rightarrow> ''custom-header''
      | Some k \<Rightarrow> if k = [] then ''custom-header'' else k)"

text \<open>
  Lines 79 to 96 of \<^verbatim>\<open>validateStream\<close>: the outbound headers, and the URL object after
  \<^verbatim>\<open>urlObj.searchParams.delete(customHeaderKey)\<close>.
\<close>

definition outbound_headers :: "config \<Rightarrow> url \<Rightarrow> (string \<times> string) list" where
  "outbound_headers cfg urlObj =
     (let headers = [(''user-agent'', USER_AGENT cfg)];
          customHeaders = map_of (searchParams urlObj) (customHeaderKey cfg)
      in (case customHeaders of
            None \<Rightarrow> headers
          | Some ch \<Rightarrow> if ch \<noteq> [] then apply_custom_headers ch headers else headers))"

definition clean_url :: "config \<Rightarrow> url \<Rightarrow> url" where
  "clean_url cfg urlObj =
     (case map_of (searchParams urlObj) (customHeaderKey cfg) of
        None \<Rightarrow> urlObj
      | Some ch \<Rightarrow>
          if ch \<noteq> [] then
            urlObj\<lparr>searchParams := filter (\<lambda>p. fst p \<noteq> customHeaderKey cfg) (searchParams urlObj)\<rparr>
          else urlObj)"

text \<open>
  \<^verbatim>\<open>await fetch(cleanUrl, options).catch(() => fetch(cleanUrl, { ...options, method: "GET" }))\<close>
\<close>

definition probe :: "'w platform \<Rightarrow> string \<Rightarrow> (string \<times> string) list option \<Rightarrow> (nat, 'w) action" where
  "probe env cleanUrl hs s =
     (case do_fetch env \<lparr>req_url = cleanUrl, req_method = HEAD, req_headers = hs\<rparr> s of
        (Inr status, s1) \<Rightarrow> (Inr status, s1)
      | (Inl e, s1) \<Rightarrow> do_fetch env \<lparr>req_url = cleanUrl, req_method = GET, req_headers = hs\<rparr> s1)"

definition validateStream_body :: "'w platform \<Rightarrow> config \<Rightarrow> string \<Rightarrow> (string option, 'w) action" where
  "validateStream_body env cfg u s =
     (case new_URL env u of
        None \<Rightarrow> (Inl (Exn ''TypeError: Invalid URL''), s)
      | Some urlObj \<Rightarrow>
          (let headers = outbound_headers cfg urlObj;
               cleanUrl = URL_toString env (clean_url cfg urlObj);
               hs = (if length headers > 0 then Some headers else None)
           in (case probe env cleanUrl hs s of
                 (Inl e, s') \<Rightarrow> (Inl e, s')
               | (Inr status, s') \<Rightarrow> (Inr (if status < 400 then Some cleanUrl else None), s'))))"

definition validateStream_fn :: "'w platform \<Rightarrow> config \<Rightarrow> string \<Rightarrow> (string option, 'w) action" where
  "validateStream_fn env cfg u = try_catch (validateStream_body env cfg u)"

definition validateStream :: "'w platform \<Rightarrow> config \<Rightarrow> string \<Rightarrow> (string option, 'w) action" where
  "validateStream env cfg u s =
     (let st = (if USE_CACHE cfg then STREAM_VALIDATION_CACHE else Map_validateStream)
      in memoize env (cache_class_of cfg st) st (\<lambda>u. ''stream:'' @ u)
           (validateStream_fn env cfg) u (log (Invoke_validateStream u) s))"

text \<open>
  The two requests the validator can send for a URL object: the \<^verbatim>\<open>HEAD\<close> probe and the
  \<^verbatim>\<open>GET\<close> probe, both for the serialised cleaned URL and with the outbound headers.
\<close>

definition head_request :: "'w platform \<Rightarrow> config \<Rightarrow> url \<Rightarrow> request" where
  "head_request env cfg urlObj =
     \<lparr>req_url = URL_toString env (clean_url cfg urlObj), req_method = HEAD,
      req_headers = Some (outbound_headers cfg urlObj)\<rparr>"

definition get_request :: "'w platform \<Rightarrow> config \<Rightarrow> url \<Rightarrow> request" where
  "get_request env cfg urlObj =
     \<lparr>req_url = URL_toString env (clean_url cfg urlObj), req_method = GET,
      req_headers = Some (outbound_headers cfg urlObj)\<rparr>"

section \<open>Video info and video id\<close>

definition getVideoInfo_fn :: "'w platform \<Rightarrow> string \<Rightarrow> (string option, 'w) action" where
  "getVideoInfo_fn env vid = try_catch (do_getInfo env vid)"

definition getVideoInfo :: "'w platform \<Rightarrow> config \<Rightarrow> string \<Rightarrow> (string option, 'w) action" where
  "getVideoInfo env cfg vid s =
     (let st = (if USE_CACHE cfg then VIDEO_INFO_CACHE else Map_getVideoInfo)
      in memoize env (cache_class_of cfg st) st (\<lambda>vid. ''video:'' @ vid)
           (getVideoInfo_fn env) vid (log (Invoke_getVideoInfo vid) s))"

definition getVideoId_fn :: "'w platform \<Rightarrow> string \<Rightarrow> (string option, 'w) action" where
  "getVideoId_fn env u = try_catch (do_resolveURL env u)"

definition getVideoId :: "'w platform \<Rightarrow> config \<Rightarrow> string \<Rightarrow> (string option, 'w) action" where
  "getVideoId env cfg u s =
     (let st = (if USE_CACHE cfg then VIDEO_INFO_CACHE else Map_getVideoId)
      in memoize env (cache_class_of cfg st) st (\<lambda>u. ''resolve:'' @ u)
           (getVideoId_fn env) u (log (Invoke_getVideoId u) s))"

section \<open>The resolver of one candidate\<close>

definition getHslStream_body :: "'w platform \<Rightarrow> config \<Rightarrow> T_Params \<Rightarrow> (string option, 'w) action" where
  "getHslStream_body env cfg param s =
     (if param_type param = ''x'' then validateStream env cfg (param_value param) s
      else if param_type param = ''v'' then getVideoInfo env cfg (param_value param) s
      else if param_type param = ''c'' then
        (case getVideoId env cfg (''https://www.youtube.com/'' @ param_value param @ ''/live'') s of
           (Inl e, s1) \<Rightarrow> (Inl e, s1)
         | (Inr vid, s1) \<Rightarrow>
             (case vid of
                None \<Rightarrow> (Inr None, s1)
              | Some v \<Rightarrow> if v = [] then (Inr None, s1) else getVideoInfo env cfg v s1))
      else (Inr None, s))"

definition getHslStream :: "'w platform \<Rightarrow> config \<Rightarrow> T_Params \<Rightarrow> (string option, 'w) action" where
  "getHslStream env cfg param s = try_catch (getHslStream_body env cfg param) (log (Dispatch param) s)"

section \<open>The main endpoint\<close>

datatype json = JString string | JNumber nat | JBool bool | JObject "(string \<times> json) list"

text \<open>\<^verbatim>\<open>c.json(object, status)\<close> and \<^verbatim>\<open>c.redirect(location)\<close>, whose status is 302.\<close>

datatype response = c_json "(string \<times> json) list" nat | c_redirect string

fun status_code :: "response \<Rightarrow> nat" where
  "status_code (c_json obj code) = code"
| "status_code (c_redirect location) = 302"

text \<open>
  The answer of the branch \<^verbatim>\<open>if (!params.length)\<close>. A field whose value is
  \<^verbatim>\<open>undefined\<close> is left out of the JSON text.
\<close>

definition server_running :: "'w platform \<Rightarrow> config \<Rightarrow> 'w state \<Rightarrow> response" where
  "server_running env cfg s =
     (let now = Date_now env (world s);
          streamValidation =
            cache_size (cache_class_of cfg STREAM_VALIDATION_CACHE) now (stores s STREAM_VALIDATION_CACHE);
          videoInfo =
            cache_size (cache_class_of cfg VIDEO_INFO_CACHE) now (stores s VIDEO_INFO_CACHE)
      in c_json
           ([(''message'', JString ''Server running!''),
             (''memory'', JObject (map (\<lambda>m. (fst m, JString (snd m))) (memoryUsage env (world s))))] @
            (if USE_CACHE cfg then
               [(''cache'', JObject [(''streamValidation'', JNumber streamValidation),
                                     (''videoInfo'', JNumber videoInfo),
                                     (''total'', JNumber (streamValidation + videoInfo))])]
             else []))
           200)"

definition no_valid_stream :: response where
  "no_valid_stream = c_json [(''success'', JBool False), (''error'', JString ''No valid stream found!'')] 404"

text \<open>
  \<^verbatim>\<open>
  for (const param of params) {
    const streamUrl = await getHslStream(param);
    if (streamUrl) { return c.redirect(streamUrl); }
  }
  return c.json({ success: false, error: "No valid stream found!" }, 404);
  \<close>
  An exception of \<^verbatim>\<open>getHslStream\<close> would leave the handler.
\<close>

fun resolve_loop :: "'w platform \<Rightarrow> config \<Rightarrow> T_Params list \<Rightarrow> (response, 'w) action" where
  "resolve_loop env cfg [] s = (Inr no_valid_stream, s)"
| "resolve_loop env cfg (param # params) s =
     (case getHslStream env cfg param s of
        (Inl e, s') \<Rightarrow> (Inl e, s')
      | (Inr streamUrl, s') \<Rightarrow>
          (case streamUrl of
             None \<Rightarrow> resolve_loop env cfg params s'
           | Some u \<Rightarrow> if u \<noteq> [] then (Inr (c_redirect u), s') else resolve_loop env cfg params s'))"

definition main_handler ::
  "'w platform \<Rightarrow> config \<Rightarrow> (string \<times> string) list \<Rightarrow> (response, 'w) action" where
  "main_handler env cfg entries s =
     (let params = parse_params entries
      in if length params = 0 then (Inr (server_running env cfg s), s)
         else resolve_loop env cfg params s)"

section \<open>The endpoint that clears the cache\<close>

text \<open>
  \<^verbatim>\<open>app.get("/clear-cache")\<close> exists in the revision \<^verbatim>\<open>src/unnamed/part_000\<close>, which has
  one cache, \<^verbatim>\<open>TTL_CACHE\<close>. The handler first checks the caller (lines 211 to 214):
  \<^verbatim>\<open>
  const hasAccess = API_KEY
    ? c.req.header("Authorization") === `Bearer ${API_KEY}X` ||
      c.req.header("User-Agent")?.includes(`${API_KEY}X`)
    : true;
  \<close>
  The handler of \<^verbatim>\<open>app.get("/")\<close> in the same file makes the same check with the key
  itself (lines 170 to 173), which is also what the README asks of a caller:
  \<^verbatim>\<open>
  const hasAccess = API_KEY
    ? c.req.header("Authorization") === `Bearer ${API_KEY}` ||
      c.req.header("User-Agent")?.includes(API_KEY)
    : true;
  \<close>
  The first is \<open>hasAccess\<close> below and the second \<open>hasAccess_main\<close>. The last argument of
  the handler is the content of \<^verbatim>\<open>TTL_CACHE\<close> when the request arrives.
\<close>

record request_headers =
  Authorization :: "string option"
  User_Agent :: "string option"

fun str_includes :: "string \<Rightarrow> string \<Rightarrow> bool" where
  "str_includes [] needle = (needle = [])"
| "str_includes (h # hs) needle = (take (length needle) (h # hs) = needle \<or> str_includes hs needle)"

definition hasAccess :: "string option \<Rightarrow> request_headers \<Rightarrow> bool" where
  "hasAccess API_KEY hdr =
     (case API_KEY of
        None \<Rightarrow> True
      | Some k \<Rightarrow>
          if k = [] then True
          else Authorization hdr = Some (''Bearer '' @ k @ ''X'') \<or>
               (case User_Agent hdr of
                  None \<Rightarrow> False
                | Some ua \<Rightarrow> str_includes ua (k @ ''X'')))"

definition hasAccess_main :: "string option \<Rightarrow> request_headers \<Rightarrow> bool" where
  "hasAccess_main API_KEY hdr =
     (case API_KEY of
        None \<Rightarrow> True
      | Some k \<Rightarrow>
          if k = [] then True
          else Authorization hdr = Some (''Bearer '' @ k) \<or>
               (case User_Agent hdr of
                  None \<Rightarrow> False
                | Some ua \<Rightarrow> str_includes ua k))"

definition unauthorized :: response where
  "unauthorized =
     c_json [(''success'', JBool False), (''error'', JString ''Unauthorized. Missing API key!'')] 401"

definition cache_cleared :: response where
  "cache_cleared = c_json [(''success'', JBool True), (''message'', JString ''Cache cleared!'')] 200"

definition nothing_to_clear :: response where
  "nothing_to_clear =
     c_json [(''success'', JBool True), (''error'', JString ''Nothing to clear. Cache is empty!'')] 200"

definition clear_cache_handler ::
  "string option \<Rightarrow> request_headers \<Rightarrow> entry list \<Rightarrow> response \<times> entry list" where
  "clear_cache_handler API_KEY hdr TTL_CACHE =
     (if \<not> hasAccess API_KEY hdr then (unauthorized, TTL_CACHE)
      else if length TTL_CACHE \<noteq> 0 then (cache_cleared, [])
      else (nothing_to_clear, TTL_CACHE))"

section \<open>Reading the record of calls\<close>

fun dispatch_of :: "event \<Rightarrow> T_Params list" where
  "dispatch_of (Dispatch p) = [p]"
| "dispatch_of (Invoke_validateStream u) = []"
| "dispatch_of (Invoke_getVideoInfo vid) = []"
| "dispatch_of (Invoke_getVideoId u) = []"
| "dispatch_of (Call_fetch req) = []"
| "dispatch_of (Call_resolveURL u) = []"
| "dispatch_of (Call_getInfo vid) = []"
| "dispatch_of (Console_error e) = []"

text \<open>The candidates handed to \<^verbatim>\<open>getHslStream\<close> so far, in order.\<close>

definition dispatched :: "'w state \<Rightarrow> T_Params list" where
  "dispatched s = concat (map dispatch_of (trace s))"

fun is_manifest_event :: "event \<Rightarrow> bool" where
  "is_manifest_event (Invoke_getVideoInfo vid) = True"
| "is_manifest_event (Call_getInfo vid) = True"
| "is_manifest_event (Dispatch p) = False"
| "is_manifest_event (Invoke_validateStream u) = False"
| "is_manifest_event (Invoke_getVideoId u) = False"
| "is_manifest_event (Call_fetch req) = False"
| "is_manifest_event (Call_resolveURL u) = False"
| "is_manifest_event (Console_error e) = False"

text \<open>The calls of \<^verbatim>\<open>getVideoInfo\<close> and of \<^verbatim>\<open>session.getInfo\<close> so far.\<close>

definition manifest_calls :: "'w state \<Rightarrow> event list" where
  "manifest_calls s = filter is_manifest_event (trace s)"

fun is_platform_event :: "event \<Rightarrow> bool" where
  "is_platform_event (Call_fetch req) = True"
| "is_platform_event (Call_resolveURL u) = True"
| "is_platform_event (Call_getInfo vid) = True"
| "is_platform_event (Dispatch p) = False"
| "is_platform_event (Invoke_validateStream u) = False"
| "is_platform_event (Invoke_getVideoInfo vid) = False"
| "is_platform_event (Invoke_getVideoId u) = False"
| "is_platform_event (Console_error e) = False"

text \<open>The calls that reached the platform so far.\<close>

definition platform_calls :: "'w state \<Rightarrow> event list" where
  "platform_calls s = filter is_platform_event (trace s)"

fun caught_of :: "event \<Rightarrow> exn list" where
  "caught_of (Console_error e) = [e]"
| "caught_of (Dispatch p) = []"
| "caught_of (Invoke_validateStream u) = []"
| "caught_of (Invoke_getVideoInfo vid) = []"
| "caught_of (Invoke_getVideoId u) = []"
| "caught_of (Call_fetch req) = []"
| "caught_of (Call_resolveURL u) = []"
| "caught_of (Call_getInfo vid) = []"

text \<open>The exceptions caught so far.\<close>

definition caught :: "'w state \<Rightarrow> exn list" where
  "caught s = concat (map caught_of (trace s))"

text \<open>
  A run that adds no dispatch to the record, returns normally, and returns
  \<^verbatim>\<open>undefined\<close> when it caught an exception.
\<close>

definition quiet :: "(exn + string option) \<times> 'w state \<Rightarrow> 'w state \<Rightarrow> bool" where
  "quiet out s =
     (\<exists>v evs. fst out = Inr v \<and> trace (snd out) = trace s @ evs \<and>
        concat (map dispatch_of evs) = [] \<and>
        (concat (map caught_of evs) \<noteq> [] \<longrightarrow> v = None))"

text \<open>
  The state after the given candidates have been resolved one after the other and each
  of them came back falsy; \<open>None\<close> when one of them did not.
\<close>

fun absent_run :: "'w platform \<Rightarrow> config \<Rightarrow> T_Params list \<Rightarrow> 'w state \<Rightarrow> 'w state option" where
  "absent_run env cfg [] s = Some s"
| "absent_run env cfg (p # ps) s =
     (case getHslStream env cfg p s of
        (Inl e, s') \<Rightarrow> None
      | (Inr r, s') \<Rightarrow> if truthy r then None else absent_run env cfg ps s')"

section \<open>A concrete platform\<close>

text \<open>
  A small platform on which the functions above can be run: the world is the clock,
  \<^verbatim>\<open>http://down/\<close> refuses every connection, \<^verbatim>\<open>http://nohead/\<close> refuses \<^verbatim>\<open>HEAD\<close> only,
  \<^verbatim>\<open>http://gone/\<close> answers 404, the handle \<^verbatim>\<open>@x\<close> is live with the video \<^verbatim>\<open>live1\<close>, and
  the lookups of \<^verbatim>\<open>@err\<close> and \<^verbatim>\<open>err\<close> throw.
\<close>

definition demo_new_URL :: "string \<Rightarrow> url option" where
  "demo_new_URL u =
     (if take 7 u = ''http://'' then
        (let base = takeWhile (\<lambda>c. c \<noteq> CHR ''?'') u;
             query = drop (length base + 1) u
         in Some \<lparr>url_base = base,
                  searchParams =
                    (if query = [] then []
                     else map (\<lambda>kv. (takeWhile (\<lambda>c. c \<noteq> CHR ''='') kv,
                                      drop (length (takeWhile (\<lambda>c. c \<noteq> CHR ''='') kv) + 1) kv))
                            (split CHR ''&'' query))\<rparr>)
      else None)"

definition demo_URL_toString :: "url \<Rightarrow> string" where
  "demo_URL_toString u =
     url_base u @
     (if searchParams u = [] then []
      else CHR ''?'' # join CHR ''&'' (map (\<lambda>p. fst p @ ''='' @ snd p) (searchParams u)))"

definition demo_fetch :: "request \<Rightarrow> nat \<Rightarrow> (exn + nat) \<times> nat" where
  "demo_fetch req w =
     (if req_url req = ''http://down/'' then Inl (Exn ''connection refused'')
      else if req_url req = ''http://nohead/'' \<and> req_method req = HEAD then Inl (Exn ''connection reset'')
      else if req_url req = ''http://gone/'' then Inr 404
      else Inr 200, w)"

definition demo_resolveURL :: "string \<Rightarrow> nat \<Rightarrow> (exn + string option) \<times> nat" where
  "demo_resolveURL u w =
     (if u = ''https://www.youtube.com/@x/live'' then Inr (Some ''live1'')
      else if u = ''https://www.youtube.com/@err/live'' then Inl (Exn ''resolve failed'')
      else Inr None, w)"

definition demo_getInfo :: "string \<Rightarrow> nat \<Rightarrow> (exn + string option) \<times> nat" where
  "demo_getInfo vid w =
     (if vid = ''live1'' then Inr (Some ''https://m.example/live.m3u8'')
      else if vid = ''err'' then Inl (Exn ''info failed'')
      else Inr None, w)"

definition demo_platform :: "nat platform" where
  "demo_platform =
     \<lparr>new_URL = demo_new_URL, URL_toString = demo_URL_toString, fetch = demo_fetch,
      resolveURL = demo_resolveURL, getInfo = demo_getInfo, Date_now = (\<lambda>w. w),
      memoryUsage = (\<lambda>w. [(''rss'', ''1 MB'')])\<rparr>"

text \<open>The configuration when no environment variable is set.\<close>

definition default_config :: config where
  "default_config =
     \<lparr>STREAM_VALIDATION_CACHE_TTL = 30, VIDEO_INFO_CACHE_SIZE = 100000,
      CUSTOM_X_HEADER = None, USER_AGENT = ''Mozilla/5.0''\<rparr>"

text \<open>The state of a freshly started server at time \<open>t\<close>.\<close>

definition fresh :: "nat \<Rightarrow> nat state" where
  "fresh t = \<lparr>world = t, stores = (\<lambda>st. []), trace = []\<rparr>"

section \<open>Properties of the candidate parser\<close>

lemma parse_params_snoc:
  "parse_params (es @ [e]) = parse_step (parse_params es) e"
  by (simp add: parse_params_def)

lemma update_last:
  "xs \<noteq> [] \<Longrightarrow> xs[length xs - 1 := y] = butlast xs @ [y]"
  by (induction xs rule: rev_induct) simp_all

lemma nth_last:
  "xs \<noteq> [] \<Longrightarrow> xs ! (length xs - 1) = last xs"
  by (simp add: last_conv_nth)

lemma parse_step_types:
  "map param_type (parse_step ps e) =
     map param_type ps @ filter (\<lambda>k. k \<in> set allowedParams) [fst e]"
  by (cases e) (auto simp: parse_step_def map_update list_update_same_conv nth_last)

lemma parse_params_types:
  "map param_type (parse_params es) = filter (\<lambda>k. k \<in> set allowedParams) (map fst es)"
  by (induction es rule: rev_induct) (simp_all add: parse_params_snoc parse_step_types parse_params_def)

lemma parse_params_empty_iff:
  "parse_params es = [] \<longleftrightarrow> (\<forall>e \<in> set es. fst e \<notin> set allowedParams)"
proof -
  have "parse_params es = [] \<longleftrightarrow> map param_type (parse_params es) = []"
    by simp
  also have "\<dots> \<longleftrightarrow> filter (\<lambda>k. k \<in> set allowedParams) (map fst es) = []"
    by (simp only: parse_params_types)
  also have "\<dots> \<longleftrightarrow> (\<forall>e \<in> set es. fst e \<notin> set allowedParams)"
    by (auto simp: filter_empty_conv)
  finally show ?thesis .
qed

lemma parse_step_recognized:
  "key \<in> set allowedParams \<Longrightarrow>
   parse_step ps (key, v) = ps @ [\<lparr>param_type = key, param_value = v\<rparr>]"
  by (simp add: parse_step_def)

lemma parse_step_continuation:
  "key \<notin> set allowedParams \<Longrightarrow> ps \<noteq> [] \<Longrightarrow>
   parse_step ps (key, v) =
     butlast ps @ [(last ps)\<lparr>param_value := param_value (last ps) @ ''&'' @ key @ ''='' @ v\<rparr>]"
  using update_last [of ps] nth_last [of ps] by (simp add: parse_step_def)

lemma parse_step_discard:
  "key \<notin> set allowedParams \<Longrightarrow> parse_step [] (key, v) = []"
  by (simp add: parse_step_def)

text \<open>
  C3. The parser goes through the query pairs in their order. A pair with a recognized
  key (\<open>v\<close>, \<open>c\<close> or \<open>x\<close>) appends a new candidate, so the candidates are the recognized
  keys in their order of occurrence; a pair with another key appends the text
  \<open>&key=value\<close> to the value of the last candidate when there is one, and is dropped
  when there is none. The pairs \<open>(v, abc), (x, http://u), (junk, 1)\<close> give two
  candidates, the second with the value \<open>http://u&junk=1\<close>.
\<close>

theorem parse_params_candidates:
  "set allowedParams = {''v'', ''c'', ''x''} \<and>
   parse_params [] = [] \<and>
   (key \<in> set allowedParams \<longrightarrow>
      parse_params (es @ [(key, v)]) =
        parse_params es @ [\<lparr>param_type = key, param_value = v\<rparr>]) \<and>
   (key \<notin> set allowedParams \<and> parse_params es \<noteq> [] \<longrightarrow>
      parse_params (es @ [(key, v)]) =
        butlast (parse_params es) @
        [(last (parse_params es))
           \<lparr>param_value := param_value (last (parse_params es)) @ ''&'' @ key @ ''='' @ v\<rparr>]) \<and>
   (key \<notin> set allowedParams \<and> parse_params es = [] \<longrightarrow>
      parse_params (es @ [(key, v)]) = []) \<and>
   map param_type (parse_params es) = filter (\<lambda>k. k \<in> set allowedParams) (map fst es) \<and>
   parse_params [(''v'', ''abc''), (''x'', ''http://u''), (''junk'', ''1'')] =
     [\<lparr>param_type = ''v'', param_value = ''abc''\<rparr>,
      \<lparr>param_type = ''x'', param_value = ''http://u&junk=1''\<rparr>]"
proof -
  have example:
    "parse_params [(''v'', ''abc''), (''x'', ''http://u''), (''junk'', ''1'')] =
       [\<lparr>param_type = ''v'', param_value = ''abc''\<rparr>,
        \<lparr>param_type = ''x'', param_value = ''http://u&junk=1''\<rparr>]"
    by (simp add: parse_params_def parse_step_def allowedParams_def)
  have keys: "set allowedParams = {''v'', ''c'', ''x''}"
    by (simp add: allowedParams_def)
  have nil: "parse_params [] = []"
    by (simp add: parse_params_def)
  show ?thesis
    using example keys nil
    by (simp only: parse_params_snoc parse_params_types)
       (simp add: parse_step_recognized parse_step_continuation parse_step_discard)
qed

theorem parse_params_candidates_witness:
  "''x'' \<in> set allowedParams \<and>
   parse_params [(''v'', ''abc''), (''x'', ''http://u'')] =
     [\<lparr>param_type = ''v'', param_value = ''abc''\<rparr>,
      \<lparr>param_type = ''x'', param_value = ''http://u''\<rparr>] \<and>
   ''junk'' \<notin> set allowedParams \<and>
   parse_params [(''v'', ''abc''), (''x'', ''http://u''), (''junk'', ''1'')] =
     [\<lparr>param_type = ''v'', param_value = ''abc''\<rparr>,
      \<lparr>param_type = ''x'', param_value = ''http://u&junk=1''\<rparr>] \<and>
   parse_params [(''junk'', ''1'')] = []"
  using parse_params_candidates [of "''x''" "[(''v'', ''abc'')]" "''http://u''"]
        parse_params_candidates [of "''junk''" "[(''v'', ''abc''), (''x'', ''http://u'')]" "''1''"]
        parse_params_candidates [of "''junk''" "[]" "''1''"]
  by (simp add: parse_params_def parse_step_def allowedParams_def)

section \<open>Properties of the endpoint that clears the cache\<close>

text \<open>
  What the handler does for a caller that its check lets in: a cache that holds entries
  is emptied and the answer is \<open>Cache cleared!\<close>; on an empty cache the answer is the
  different \<open>Nothing to clear. Cache is empty!\<close>; both answers have status 200.
\<close>

lemma clear_cache_let_in:
  "hasAccess API_KEY hdr \<Longrightarrow>
   (TTL_CACHE \<noteq> [] \<longrightarrow>
      clear_cache_handler API_KEY hdr TTL_CACHE = (cache_cleared, [])) \<and>
   (TTL_CACHE = [] \<longrightarrow>
      clear_cache_handler API_KEY hdr TTL_CACHE = (nothing_to_clear, [])) \<and>
   status_code cache_cleared = 200 \<and>
   status_code nothing_to_clear = 200 \<and>
   cache_cleared \<noteq> nothing_to_clear"
  by (simp add: clear_cache_handler_def cache_cleared_def nothing_to_clear_def)

lemma clear_cache_no_key:
  "clear_cache_handler None hdr [(''video:abc'', None, 0)] = (cache_cleared, []) \<and>
   clear_cache_handler None hdr [] = (nothing_to_clear, [])"
  by (simp add: clear_cache_handler_def hasAccess_def)

text \<open>
  C9 says that clearing always succeeds with status 200. The handler does not: its
  access check compares with the API key followed by the letter \<open>X\<close>, so the caller who
  presents the key as the main endpoint and the README ask for it is turned away.
  For every key that is not empty, \<open>Authorization: Bearer <key>\<close> passes the check of
  the main endpoint and fails the check of this one, and the handler answers 401 and
  leaves the cache as it was. With the key \<open>secret\<close>, a caller who sends it both as
  bearer token and inside the user agent gets 401 and the entry stays in the cache.
\<close>

theorem clear_cache_documented_key_refused:
  "hasAccess_main (Some (c # k)) \<lparr>Authorization = Some (''Bearer '' @ c # k), User_Agent = None\<rparr> \<and>
   \<not> hasAccess (Some (c # k)) \<lparr>Authorization = Some (''Bearer '' @ c # k), User_Agent = None\<rparr> \<and>
   clear_cache_handler (Some (c # k))
       \<lparr>Authorization = Some (''Bearer '' @ c # k), User_Agent = None\<rparr> TTL_CACHE =
     (unauthorized, TTL_CACHE) \<and>
   hasAccess_main (Some ''secret'')
       \<lparr>Authorization = Some ''Bearer secret'', User_Agent = Some ''curl/8.5 secret''\<rparr> \<and>
   \<not> hasAccess (Some ''secret'')
       \<lparr>Authorization = Some ''Bearer secret'', User_Agent = Some ''curl/8.5 secret''\<rparr> \<and>
   clear_cache_handler (Some ''secret'')
       \<lparr>Authorization = Some ''Bearer secret'', User_Agent = Some ''curl/8.5 secret''\<rparr>
       [(''video:abc'', None, 0)] =
     (unauthorized, [(''video:abc'', None, 0)]) \<and>
   status_code unauthorized = 401"
  by (simp add: clear_cache_handler_def hasAccess_def hasAccess_main_def unauthorized_def)

section \<open>Properties of the main endpoint\<close>

text \<open>
  C10. When no key of the query is recognized, so that there is no candidate, the
  handler of \<^verbatim>\<open>src/main.ts\<close> answers \<open>Server running!\<close> with the diagnostics and status
  200, not the 404 answer, and the state is the one it started from: nothing was
  added to the record of calls, so neither the validator nor the resolver ran.
\<close>

theorem main_handler_no_candidates:
  "(\<forall>e \<in> set entries. fst e \<notin> set allowedParams) \<Longrightarrow>
   parse_params entries = [] \<and>
   main_handler env cfg entries s = (Inr (server_running env cfg s), s) \<and>
   status_code (server_running env cfg s) = 200 \<and>
   (\<exists>diagnostics.
      server_running env cfg s = c_json ((''message'', JString ''Server running!'') # diagnostics) 200) \<and>
   server_running env cfg s \<noteq> no_valid_stream \<and>
   trace (snd (main_handler env cfg entries s)) = trace s"
  by (simp add: parse_params_empty_iff main_handler_def server_running_def Let_def no_valid_stream_def)

theorem main_handler_no_candidates_witness:
  "''junk'' \<notin> set allowedParams \<and> ''q'' \<notin> set allowedParams \<and>
   main_handler demo_platform default_config [(''junk'', ''1''), (''q'', ''abc'')] (fresh 0) =
     (Inr (c_json [(''message'', JString ''Server running!''),
                   (''memory'', JObject [(''rss'', JString ''1 MB'')]),
                   (''cache'', JObject [(''streamValidation'', JNumber 0),
                                        (''videoInfo'', JNumber 0),
                                        (''total'', JNumber 0)])] 200),
      fresh 0)"
proof -
  have h: "\<forall>e \<in> set [(''junk'', ''1''), (''q'', ''abc'')]. fst e \<notin> set allowedParams"
    by (simp add: allowedParams_def)
  show ?thesis
    using h main_handler_no_candidates [OF h, of demo_platform default_config "fresh 0"]
    by (simp add: server_running_def demo_platform_def default_config_def fresh_def
        USE_CACHE_def cache_size_def)
qed

section \<open>Properties of the stream validator\<close>

lemma split_nonempty: "split c str \<noteq> []"
  by (induction str) (auto split: list.splits)

lemma join_split: "join c (split c str) = str"
proof (induction str)
  case Nil
  show ?case by simp
next
  case (Cons x xs)
  show ?case
  proof (cases "split c xs")
    case Nil
    then show ?thesis using split_nonempty [of c xs] by simp
  next
    case (Cons y ys)
    with Cons.IH show ?thesis by (cases ys) auto
  qed
qed

lemma split_no_separator: "c \<notin> set n \<Longrightarrow> split c n = [n]"
  by (induction n) auto

lemma split_append_separator: "c \<notin> set n \<Longrightarrow> split c (n @ c # v) = n # split c v"
  by (induction n) auto

lemma split_join:
  "xs \<noteq> [] \<Longrightarrow> \<forall>x \<in> set xs. c \<notin> set x \<Longrightarrow> split c (join c xs) = xs"
proof (induction c xs rule: join.induct)
  case (1 c)
  then show ?case by simp
next
  case (2 c x)
  then show ?case by (simp add: split_no_separator)
next
  case (3 c x y ys)
  then show ?case by (simp add: split_append_separator)
qed

lemma apply_pair_wellformed:
  "n \<noteq> [] \<Longrightarrow> CHR '':'' \<notin> set n \<Longrightarrow> apply_pair (n @ CHR '':'' # v) hs = set_header n v hs"
  by (simp add: apply_pair_def split_append_separator split_nonempty join_split)

lemma map_of_set_header: "map_of (set_header k v hs) = (map_of hs)(k \<mapsto> v)"
  by (induction hs) (auto simp: fun_eq_iff)

lemma set_header_nonempty: "set_header k v hs \<noteq> []"
  by (cases hs) auto

lemma apply_pair_nonempty: "hs \<noteq> [] \<Longrightarrow> apply_pair pair hs \<noteq> []"
  by (auto simp: apply_pair_def set_header_nonempty split: list.splits)

lemma fold_apply_pair_nonempty: "hs \<noteq> [] \<Longrightarrow> fold apply_pair pairs hs \<noteq> []"
  by (induction pairs arbitrary: hs) (auto simp: apply_pair_nonempty)

lemma outbound_headers_nonempty: "outbound_headers cfg urlObj \<noteq> []"
  by (auto simp: outbound_headers_def Let_def apply_custom_headers_def fold_apply_pair_nonempty
      split: option.splits)

lemma apply_custom_headers_wellformed:
  assumes "pairs \<noteq> []"
    and "\<forall>p \<in> set pairs. fst p \<noteq> [] \<and> CHR '':'' \<notin> set (fst p) \<and> CHR '','' \<notin> set (fst p) \<and> CHR '','' \<notin> set (snd p)"
  shows "apply_custom_headers (join CHR '','' (map (\<lambda>p. fst p @ '':'' @ snd p) pairs)) hs =
         fold (\<lambda>p. set_header (fst p) (snd p)) pairs hs"
proof -
  have "split CHR '','' (join CHR '','' (map (\<lambda>p. fst p @ '':'' @ snd p) pairs)) =
        map (\<lambda>p. fst p @ '':'' @ snd p) pairs"
    using assms by (intro split_join) auto
  moreover have "fold apply_pair (map (\<lambda>p. fst p @ '':'' @ snd p) ps) hs =
        fold (\<lambda>p. set_header (fst p) (snd p)) ps hs"
    if "\<forall>p \<in> set ps. fst p \<noteq> [] \<and> CHR '':'' \<notin> set (fst p)" for ps
    using that by (induction ps arbitrary: hs) (simp_all add: apply_pair_wellformed)
  ultimately show ?thesis
    using assms by (simp add: apply_custom_headers_def)
qed

lemma map_of_fold_set_header:
  "distinct (map fst pairs) \<Longrightarrow> p \<in> set pairs \<Longrightarrow>
   map_of (fold (\<lambda>p. set_header (fst p) (snd p)) pairs hs) (fst p) = Some (snd p)"
proof (induction pairs arbitrary: hs rule: rev_induct)
  case Nil
  then show ?case by simp
next
  case (snoc q qs)
  then show ?case
    by (auto simp: map_of_set_header rev_image_eqI)
qed

lemma join_pairs_nonempty:
  "pairs \<noteq> [] \<Longrightarrow> \<forall>p \<in> set pairs. fst p \<noteq> [] \<Longrightarrow>
   join c (map (\<lambda>p. fst p @ '':'' @ snd p) pairs) \<noteq> []"
  by (cases pairs; cases "tl pairs") auto

lemma try_catch_Inr: "\<exists>r s'. try_catch body s = (Inr r, s')"
  by (auto simp: try_catch_def split: prod.splits sum.splits)

lemma validateStream_fn_invalid:
  "new_URL env u = None \<Longrightarrow>
   validateStream_fn env cfg u s =
     (Inr None, s\<lparr>trace := trace s @ [Console_error (Exn ''TypeError: Invalid URL'')]\<rparr>)"
  by (simp add: validateStream_fn_def try_catch_def validateStream_body_def log_def)

lemma validateStream_fn_probe:
  "new_URL env u = Some urlObj \<Longrightarrow>
   validateStream_fn env cfg u s =
     (case probe env (URL_toString env (clean_url cfg urlObj)) (Some (outbound_headers cfg urlObj)) s of
        (Inl e, s') \<Rightarrow> (Inr None, log (Console_error e) s')
      | (Inr status, s') \<Rightarrow>
          (Inr (if status < 400 then Some (URL_toString env (clean_url cfg urlObj)) else None), s'))"
  by (simp add: validateStream_fn_def try_catch_def validateStream_body_def Let_def
      outbound_headers_nonempty split: prod.splits sum.splits)

lemma probe_head_answers:
  "fetch env (head_request env cfg urlObj) (world s) = (Inr st, w1) \<Longrightarrow>
   probe env (URL_toString env (clean_url cfg urlObj)) (Some (outbound_headers cfg urlObj)) s =
     (Inr st, s\<lparr>world := w1, trace := trace s @ [Call_fetch (head_request env cfg urlObj)]\<rparr>)"
  by (simp add: probe_def do_fetch_def head_request_def log_def)

lemma probe_head_fails:
  "fetch env (head_request env cfg urlObj) (world s) = (Inl e, w1) \<Longrightarrow>
   fetch env (get_request env cfg urlObj) w1 = (r, w2) \<Longrightarrow>
   probe env (URL_toString env (clean_url cfg urlObj)) (Some (outbound_headers cfg urlObj)) s =
     (r, s\<lparr>world := w2,
           trace := trace s @ [Call_fetch (head_request env cfg urlObj),
                               Call_fetch (get_request env cfg urlObj)]\<rparr>)"
  by (simp add: probe_def do_fetch_def head_request_def get_request_def log_def)

text \<open>
  C4. The validator sends the \<^verbatim>\<open>HEAD\<close> probe first. When that probe is answered, with
  whatever status, no second probe is sent; when it is rejected, the \<^verbatim>\<open>GET\<close> probe is
  sent once. A status below 400 from the probe that answered gives the cleaned URL,
  any other status gives \<^verbatim>\<open>undefined\<close>, and so do a rejected \<^verbatim>\<open>GET\<close> probe and a URL
  that does not parse. The validator never throws.
\<close>

theorem validateStream_fn_head_then_get:
  "(new_URL env u = None \<longrightarrow>
      validateStream_fn env cfg u s =
        (Inr None, s\<lparr>trace := trace s @ [Console_error (Exn ''TypeError: Invalid URL'')]\<rparr>)) \<and>
   (new_URL env u = Some urlObj \<and>
    fetch env (head_request env cfg urlObj) (world s) = (Inr st, w1) \<longrightarrow>
      validateStream_fn env cfg u s =
        (Inr (if st < 400 then Some (URL_toString env (clean_url cfg urlObj)) else None),
         s\<lparr>world := w1, trace := trace s @ [Call_fetch (head_request env cfg urlObj)]\<rparr>)) \<and>
   (new_URL env u = Some urlObj \<and>
    fetch env (head_request env cfg urlObj) (world s) = (Inl e, w1) \<and>
    fetch env (get_request env cfg urlObj) w1 = (Inr st, w2) \<longrightarrow>
      validateStream_fn env cfg u s =
        (Inr (if st < 400 then Some (URL_toString env (clean_url cfg urlObj)) else None),
         s\<lparr>world := w2,
           trace := trace s @ [Call_fetch (head_request env cfg urlObj),
                               Call_fetch (get_request env cfg urlObj)]\<rparr>)) \<and>
   (new_URL env u = Some urlObj \<and>
    fetch env (head_request env cfg urlObj) (world s) = (Inl e, w1) \<and>
    fetch env (get_request env cfg urlObj) w1 = (Inl e', w2) \<longrightarrow>
      validateStream_fn env cfg u s =
        (Inr None,
         s\<lparr>world := w2,
           trace := trace s @ [Call_fetch (head_request env cfg urlObj),
                               Call_fetch (get_request env cfg urlObj),
                               Console_error e']\<rparr>)) \<and>
   (\<exists>r s'. validateStream_fn env cfg u s = (Inr r, s'))"
proof -
  have "\<exists>r s'. validateStream_fn env cfg u s = (Inr r, s')"
    unfolding validateStream_fn_def by (rule try_catch_Inr)
  then show ?thesis
    by (simp add: validateStream_fn_invalid validateStream_fn_probe probe_head_answers
        probe_head_fails log_def)
qed

lemma demo_url_plain:
  "demo_new_URL ''http://nohead/'' = Some \<lparr>url_base = ''http://nohead/'', searchParams = []\<rparr>"
  "demo_new_URL ''http://gone/'' = Some \<lparr>url_base = ''http://gone/'', searchParams = []\<rparr>"
  "demo_new_URL ''http://down/'' = Some \<lparr>url_base = ''http://down/'', searchParams = []\<rparr>"
  "demo_new_URL ''http://u/'' = Some \<lparr>url_base = ''http://u/'', searchParams = []\<rparr>"
  "demo_new_URL ''not a url'' = None"
  by (simp_all add: demo_new_URL_def)

theorem validateStream_fn_head_then_get_witness:
  "validateStream_fn demo_platform default_config ''not a url'' (fresh 0) =
     (Inr None,
      \<lparr>world = 0, stores = (\<lambda>st. []),
       trace = [Console_error (Exn ''TypeError: Invalid URL'')]\<rparr>) \<and>
   validateStream_fn demo_platform default_config ''http://u/'' (fresh 0) =
     (Inr (Some ''http://u/''),
      \<lparr>world = 0, stores = (\<lambda>st. []),
       trace = [Call_fetch \<lparr>req_url = ''http://u/'', req_method = HEAD,
                            req_headers = Some [(''user-agent'', ''Mozilla/5.0'')]\<rparr>]\<rparr>) \<and>
   validateStream_fn demo_platform default_config ''http://gone/'' (fresh 0) =
     (Inr None,
      \<lparr>world = 0, stores = (\<lambda>st. []),
       trace = [Call_fetch \<lparr>req_url = ''http://gone/'', req_method = HEAD,
                            req_headers = Some [(''user-agent'', ''Mozilla/5.0'')]\<rparr>]\<rparr>) \<and>
   validateStream_fn demo_platform default_config ''http://nohead/'' (fresh 0) =
     (Inr (Some ''http://nohead/''),
      \<lparr>world = 0, stores = (\<lambda>st. []),
       trace = [Call_fetch \<lparr>req_url = ''http://nohead/'', req_method = HEAD,
                            req_headers = Some [(''user-agent'', ''Mozilla/5.0'')]\<rparr>,
                Call_fetch \<lparr>req_url = ''http://nohead/'', req_method = GET,
                            req_headers = Some [(''user-agent'', ''Mozilla/5.0'')]\<rparr>]\<rparr>) \<and>
   validateStream_fn demo_platform default_config ''http://down/'' (fresh 0) =
     (Inr None,
      \<lparr>world = 0, stores = (\<lambda>st. []),
       trace = [Call_fetch \<lparr>req_url = ''http://down/'', req_method = HEAD,
                            req_headers = Some [(''user-agent'', ''Mozilla/5.0'')]\<rparr>,
                Call_fetch \<lparr>req_url = ''http://down/'', req_method = GET,
                            req_headers = Some [(''user-agent'', ''Mozilla/5.0'')]\<rparr>,
                Console_error (Exn ''connection refused'')]\<rparr>)"
  using
    validateStream_fn_head_then_get [of demo_platform "''not a url''" default_config "fresh 0"]
    validateStream_fn_head_then_get [of demo_platform "''http://u/''" default_config "fresh 0"
      "\<lparr>url_base = ''http://u/'', searchParams = []\<rparr>" 200 0]
    validateStream_fn_head_then_get [of demo_platform "''http://gone/''" default_config "fresh 0"
      "\<lparr>url_base = ''http://gone/'', searchParams = []\<rparr>" 404 0]
    validateStream_fn_head_then_get [of demo_platform "''http://nohead/''" default_config "fresh 0"
      "\<lparr>url_base = ''http://nohead/'', searchParams = []\<rparr>" 200 0 "Exn ''connection reset''" 0]
    validateStream_fn_head_then_get [of demo_platform "''http://down/''" default_config "fresh 0"
      "\<lparr>url_base = ''http://down/'', searchParams = []\<rparr>" _ 0 "Exn ''connection refused''" 0
      "Exn ''connection refused''"]
  by (simp add: demo_platform_def demo_url_plain head_request_def get_request_def clean_url_def
      outbound_headers_def customHeaderKey_def default_config_def demo_URL_toString_def
      demo_fetch_def fresh_def)

lemma probe_trace:
  "probe env cleanUrl hs s = (r, s') \<Longrightarrow>
   (\<exists>st. r = Inr st) \<and>
   trace s' = trace s @ [Call_fetch \<lparr>req_url = cleanUrl, req_method = HEAD, req_headers = hs\<rparr>] \<or>
   trace s' = trace s @ [Call_fetch \<lparr>req_url = cleanUrl, req_method = HEAD, req_headers = hs\<rparr>,
                         Call_fetch \<lparr>req_url = cleanUrl, req_method = GET, req_headers = hs\<rparr>]"
  by (auto simp: probe_def do_fetch_def log_def split: prod.splits sum.splits)

lemma validateStream_fn_result:
  "new_URL env u = Some urlObj \<Longrightarrow> validateStream_fn env cfg u s = (r, s') \<Longrightarrow>
   (r = Inr None \<or> r = Inr (Some (URL_toString env (clean_url cfg urlObj)))) \<and>
   (trace s' = trace s @ [Call_fetch (head_request env cfg urlObj)] \<or>
    trace s' = trace s @ [Call_fetch (head_request env cfg urlObj),
                          Call_fetch (get_request env cfg urlObj)] \<or>
    (\<exists>e. trace s' = trace s @ [Call_fetch (head_request env cfg urlObj),
                               Call_fetch (get_request env cfg urlObj),
                               Console_error e]))"
  using probe_trace [of env "URL_toString env (clean_url cfg urlObj)"
      "Some (outbound_headers cfg urlObj)" s]
  by (auto simp: validateStream_fn_probe head_request_def get_request_def log_def
      split: prod.splits sum.splits if_splits)

text \<open>
  C7. Let the reserved query parameter of a direct URL hold the pairs \<open>name:value\<close>,
  separated by commas, where a name is not empty and has no colon and neither part has
  a comma. Then the outbound headers are the user agent followed by each pair in turn,
  the value being everything after the first colon of the pair (so further colons stay
  in it), and every pair is among the headers when the names differ. The reserved
  parameter is removed from the URL object, every probe is sent to the serialised
  cleaned URL with these headers, and a successful validation returns that cleaned
  URL.
\<close>

theorem validateStream_custom_headers:
  assumes "new_URL env u = Some urlObj"
    and "map_of (searchParams urlObj) (customHeaderKey cfg) =
           Some (join CHR '','' (map (\<lambda>p. fst p @ '':'' @ snd p) pairs))"
    and "pairs \<noteq> []"
    and "\<forall>p \<in> set pairs. fst p \<noteq> [] \<and> CHR '':'' \<notin> set (fst p) \<and>
                          CHR '','' \<notin> set (fst p) \<and> CHR '','' \<notin> set (snd p)"
    and "validateStream_fn env cfg u s = (r, s')"
  shows "outbound_headers cfg urlObj =
           fold (\<lambda>p. set_header (fst p) (snd p)) pairs [(''user-agent'', USER_AGENT cfg)] \<and>
         (distinct (map fst pairs) \<longrightarrow>
            (\<forall>p \<in> set pairs. map_of (outbound_headers cfg urlObj) (fst p) = Some (snd p))) \<and>
         clean_url cfg urlObj =
           urlObj\<lparr>searchParams :=
                    filter (\<lambda>p. fst p \<noteq> customHeaderKey cfg) (searchParams urlObj)\<rparr> \<and>
         customHeaderKey cfg \<notin> fst ` set (searchParams (clean_url cfg urlObj)) \<and>
         (r = Inr None \<or> r = Inr (Some (URL_toString env (clean_url cfg urlObj)))) \<and>
         (trace s' = trace s @ [Call_fetch (head_request env cfg urlObj)] \<or>
          trace s' = trace s @ [Call_fetch (head_request env cfg urlObj),
                                Call_fetch (get_request env cfg urlObj)] \<or>
          (\<exists>e. trace s' = trace s @ [Call_fetch (head_request env cfg urlObj),
                                     Call_fetch (get_request env cfg urlObj),
                                     Console_error e])) \<and>
         req_url (head_request env cfg urlObj) = URL_toString env (clean_url cfg urlObj) \<and>
         req_headers (head_request env cfg urlObj) = Some (outbound_headers cfg urlObj) \<and>
         req_url (get_request env cfg urlObj) = URL_toString env (clean_url cfg urlObj) \<and>
         req_headers (get_request env cfg urlObj) = Some (outbound_headers cfg urlObj)"
proof -
  let ?ch = "join CHR '','' (map (\<lambda>p. fst p @ '':'' @ snd p) pairs)"
  have ne: "?ch \<noteq> []"
    using assms(3,4) by (intro join_pairs_nonempty) auto
  have hdrs: "outbound_headers cfg urlObj =
      fold (\<lambda>p. set_header (fst p) (snd p)) pairs [(''user-agent'', USER_AGENT cfg)]"
    using assms(2) ne apply_custom_headers_wellformed [OF assms(3,4)]
    by (simp add: outbound_headers_def)
  have each: "map_of (outbound_headers cfg urlObj) (fst p) = Some (snd p)"
    if "distinct (map fst pairs)" "p \<in> set pairs" for p
    using that by (simp add: hdrs map_of_fold_set_header)
  have clean: "clean_url cfg urlObj =
      urlObj\<lparr>searchParams := filter (\<lambda>p. fst p \<noteq> customHeaderKey cfg) (searchParams urlObj)\<rparr>"
    using assms(2) ne by (simp add: clean_url_def)
  have gone: "customHeaderKey cfg \<notin> fst ` set (searchParams (clean_url cfg urlObj))"
    by (auto simp: clean)
  show ?thesis
    using hdrs each clean gone validateStream_fn_result [OF assms(1,5)]
    by (simp add: head_request_def get_request_def)
qed

lemma demo_url_custom:
  "demo_new_URL ''http://u/?custom-header=a:b:c,d:e&z=1'' =
     Some \<lparr>url_base = ''http://u/'',
           searchParams = [(''custom-header'', ''a:b:c,d:e''), (''z'', ''1'')]\<rparr>"
  by (simp add: demo_new_URL_def)

theorem validateStream_custom_headers_witness:
  "validateStream_fn demo_platform default_config ''http://u/?custom-header=a:b:c,d:e&z=1'' (fresh 0) =
     (Inr (Some ''http://u/?z=1''),
      \<lparr>world = 0, stores = (\<lambda>st. []),
       trace = [Call_fetch \<lparr>req_url = ''http://u/?z=1'', req_method = HEAD,
                            req_headers = Some [(''user-agent'', ''Mozilla/5.0''),
                                                (''a'', ''b:c''), (''d'', ''e'')]\<rparr>]\<rparr>) \<and>
   outbound_headers default_config
     \<lparr>url_base = ''http://u/'',
      searchParams = [(''custom-header'', ''a:b:c,d:e''), (''z'', ''1'')]\<rparr> =
     [(''user-agent'', ''Mozilla/5.0''), (''a'', ''b:c''), (''d'', ''e'')] \<and>
   clean_url default_config
     \<lparr>url_base = ''http://u/'',
      searchParams = [(''custom-header'', ''a:b:c,d:e''), (''z'', ''1'')]\<rparr> =
     \<lparr>url_base = ''http://u/'', searchParams = [(''z'', ''1'')]\<rparr>"
proof -
  let ?u = "''http://u/?custom-header=a:b:c,d:e&z=1''"
  let ?urlObj = "\<lparr>url_base = ''http://u/'',
                  searchParams = [(''custom-header'', ''a:b:c,d:e''), (''z'', ''1'')]\<rparr>"
  let ?pairs = "[(''a'', ''b:c''), (''d'', ''e'')]"
  have h1: "new_URL demo_platform ?u = Some ?urlObj"
    by (simp add: demo_platform_def demo_url_custom)
  have h2: "map_of (searchParams ?urlObj) (customHeaderKey default_config) =
      Some (join CHR '','' (map (\<lambda>p. fst p @ '':'' @ snd p) ?pairs))"
    by (simp add: customHeaderKey_def default_config_def)
  have h3: "?pairs \<noteq> []"
    by simp
  have h4: "\<forall>p \<in> set ?pairs. fst p \<noteq> [] \<and> CHR '':'' \<notin> set (fst p) \<and>
                          CHR '','' \<notin> set (fst p) \<and> CHR '','' \<notin> set (snd p)"
    by simp
  have run: "validateStream_fn demo_platform default_config ?u (fresh 0) =
     (Inr (Some ''http://u/?z=1''),
      \<lparr>world = 0, stores = (\<lambda>st. []),
       trace = [Call_fetch \<lparr>req_url = ''http://u/?z=1'', req_method = HEAD,
                            req_headers = Some [(''user-agent'', ''Mozilla/5.0''),
                                                (''a'', ''b:c''), (''d'', ''e'')]\<rparr>]\<rparr>)"
    by (simp add: validateStream_fn_def validateStream_body_def try_catch_def demo_platform_def
        demo_url_custom outbound_headers_def clean_url_def customHeaderKey_def default_config_def
        apply_custom_headers_def apply_pair_def demo_URL_toString_def probe_def do_fetch_def
        demo_fetch_def log_def fresh_def Let_def)
  show ?thesis
    using validateStream_custom_headers [OF h1 h2 h3 h4 run] run
    by (simp add: customHeaderKey_def default_config_def)
qed

section \<open>What a run adds to the record of calls\<close>

lemma memoize_cases:
  "memoize env cls st gk fn arg s = (r, s') \<Longrightarrow>
   (\<exists>v. r = Inr v) \<and> trace s' = trace s \<and> world s' = world s \<or>
   (\<exists>s1. fn arg s = (r, s1) \<and> trace s' = trace s1 \<and> world s' = world s1)"
  by (auto simp: memoize_def Let_def split: option.splits prod.splits sum.splits)

lemma getVideoInfo_fn_cases:
  "getVideoInfo_fn env vid s = (r, s') \<Longrightarrow>
   (\<exists>v. r = Inr v \<and> trace s' = trace s @ [Call_getInfo vid]) \<or>
   (\<exists>e. r = Inr None \<and> trace s' = trace s @ [Call_getInfo vid, Console_error e])"
  by (auto simp: getVideoInfo_fn_def try_catch_def do_getInfo_def log_def
      split: prod.splits sum.splits)

lemma getVideoId_fn_cases:
  "getVideoId_fn env u s = (r, s') \<Longrightarrow>
   (\<exists>v. r = Inr v \<and> trace s' = trace s @ [Call_resolveURL u]) \<or>
   (\<exists>e. r = Inr None \<and> trace s' = trace s @ [Call_resolveURL u, Console_error e])"
  by (auto simp: getVideoId_fn_def try_catch_def do_resolveURL_def log_def
      split: prod.splits sum.splits)

lemma validateStream_fn_cases:
  "validateStream_fn env cfg u s = (r, s') \<Longrightarrow>
   (\<exists>v evs. r = Inr v \<and> trace s' = trace s @ evs \<and> set evs \<subseteq> range Call_fetch) \<or>
   (\<exists>e evs. r = Inr None \<and> trace s' = trace s @ evs @ [Console_error e] \<and>
      set evs \<subseteq> range Call_fetch)"
proof (cases "new_URL env u")
  case None
  assume "validateStream_fn env cfg u s = (r, s')"
  with None show ?thesis
    by (auto simp: validateStream_fn_invalid)
next
  case (Some urlObj)
  assume run: "validateStream_fn env cfg u s = (r, s')"
  obtain pr s1 where p: "probe env (URL_toString env (clean_url cfg urlObj))
      (Some (outbound_headers cfg urlObj)) s = (pr, s1)"
    by (cases "probe env (URL_toString env (clean_url cfg urlObj))
      (Some (outbound_headers cfg urlObj)) s") auto
  from probe_trace [OF p] obtain evs where
    evs: "trace s1 = trace s @ evs" "set evs \<subseteq> range Call_fetch"
    by auto
  show ?thesis
  proof (cases pr)
    case (Inl e)
    with run Some p evs have "r = Inr None \<and> trace s' = trace s @ evs @ [Console_error e]"
      by (auto simp: validateStream_fn_probe log_def)
    with evs show ?thesis by blast
  next
    case (Inr st)
    with run Some p evs have "(\<exists>v. r = Inr v) \<and> trace s' = trace s @ evs"
      by (auto simp: validateStream_fn_probe)
    with evs show ?thesis by blast
  qed
qed

text \<open>What a run of one of the three memoized functions adds to the record.\<close>

lemma validateStream_cases:
  "validateStream env cfg u s = (r, s') \<Longrightarrow>
   (\<exists>v evs. r = Inr v \<and> trace s' = trace s @ Invoke_validateStream u # evs \<and>
      set evs \<subseteq> range Call_fetch) \<or>
   (\<exists>e evs. r = Inr None \<and> trace s' = trace s @ Invoke_validateStream u # evs @ [Console_error e] \<and>
      set evs \<subseteq> range Call_fetch)"
  unfolding validateStream_def Let_def
  by (drule memoize_cases) (auto simp: log_def dest!: validateStream_fn_cases)

lemma getVideoInfo_cases:
  "getVideoInfo env cfg vid s = (r, s') \<Longrightarrow>
   (\<exists>v evs. r = Inr v \<and> trace s' = trace s @ Invoke_getVideoInfo vid # evs \<and>
      (evs = [] \<or> evs = [Call_getInfo vid])) \<or>
   (\<exists>e. r = Inr None \<and>
      trace s' = trace s @ [Invoke_getVideoInfo vid, Call_getInfo vid, Console_error e])"
  unfolding getVideoInfo_def Let_def
  by (drule memoize_cases) (auto simp: log_def dest!: getVideoInfo_fn_cases)

lemma getVideoId_cases:
  "getVideoId env cfg u s = (r, s') \<Longrightarrow>
   (\<exists>v evs. r = Inr v \<and> trace s' = trace s @ Invoke_getVideoId u # evs \<and>
      (evs = [] \<or> evs = [Call_resolveURL u])) \<or>
   (\<exists>e. r = Inr None \<and>
      trace s' = trace s @ [Invoke_getVideoId u, Call_resolveURL u, Console_error e])"
  unfolding getVideoId_def Let_def
  by (drule memoize_cases) (auto simp: log_def dest!: getVideoId_fn_cases)


lemma fetch_event:
  "set evs \<subseteq> range Call_fetch \<Longrightarrow> e \<in> set evs \<Longrightarrow> dispatch_of e = [] \<and> caught_of e = []"
  by auto

lemma validateStream_quiet: "quiet (validateStream env cfg u s) s"
proof -
  obtain r s' where run: "validateStream env cfg u s = (r, s')"
    by (cases "validateStream env cfg u s") auto
  from validateStream_cases [OF run] show ?thesis
    unfolding quiet_def run by (auto dest: fetch_event)
qed

lemma getVideoInfo_quiet: "quiet (getVideoInfo env cfg vid s) s"
proof -
  obtain r s' where run: "getVideoInfo env cfg vid s = (r, s')"
    by (cases "getVideoInfo env cfg vid s") auto
  from getVideoInfo_cases [OF run] show ?thesis
    unfolding quiet_def run by auto
qed

lemma getVideoId_quiet: "quiet (getVideoId env cfg u s) s"
proof -
  obtain r s' where run: "getVideoId env cfg u s = (r, s')"
    by (cases "getVideoId env cfg u s") auto
  from getVideoId_cases [OF run] show ?thesis
    unfolding quiet_def run by auto
qed

lemma quiet_refl: "quiet (Inr None, s) s"
  by (simp add: quiet_def)

lemma quiet_then:
  assumes "quiet (Inr (Some v), s1) s" and "quiet out s1"
  shows "quiet out s"
  using assms unfolding quiet_def by (cases out) auto

lemma quiet_absent:
  assumes "quiet (Inr v, s1) s"
  shows "quiet (Inr None, s1) s"
  using assms unfolding quiet_def by auto

lemma getHslStream_body_quiet: "quiet (getHslStream_body env cfg p s) s"
proof -
  let ?u = "''https://www.youtube.com/'' @ param_value p @ ''/live''"
  have c: "quiet (case getVideoId env cfg ?u s of
             (Inl e, s1) \<Rightarrow> (Inl e, s1)
           | (Inr vid, s1) \<Rightarrow>
               (case vid of
                  None \<Rightarrow> (Inr None, s1)
                | Some v \<Rightarrow> if v = [] then (Inr None, s1) else getVideoInfo env cfg v s1)) s"
  proof -
    obtain r s1 where run: "getVideoId env cfg ?u s = (r, s1)"
      by (cases "getVideoId env cfg ?u s") auto
    with getVideoId_quiet [of env cfg ?u s] have q: "quiet (r, s1) s"
      by simp
    then obtain vid where r: "r = Inr vid"
      by (auto simp: quiet_def)
    show ?thesis
    proof (cases vid)
      case None
      with q r run show ?thesis by simp
    next
      case (Some v)
      show ?thesis
      proof (cases "v = []")
        case True
        with q r run Some show ?thesis by (auto intro: quiet_absent)
      next
        case False
        have "quiet (getVideoInfo env cfg v s1) s"
          using q r Some getVideoInfo_quiet [of env cfg v s1] by (auto intro: quiet_then)
        with r run Some False show ?thesis by simp
      qed
    qed
  qed
  show ?thesis
    unfolding getHslStream_body_def
    using c validateStream_quiet [of env cfg "param_value p" s]
      getVideoInfo_quiet [of env cfg "param_value p" s] quiet_refl [of s]
    by simp
qed

lemma getHslStream_summary:
  "\<exists>v evs. getHslStream env cfg p s = (Inr v, snd (getHslStream env cfg p s)) \<and>
     trace (snd (getHslStream env cfg p s)) = trace s @ Dispatch p # evs \<and>
     concat (map dispatch_of evs) = [] \<and>
     (concat (map caught_of evs) \<noteq> [] \<longrightarrow> v = None)"
proof -
  obtain r s1 where run: "getHslStream_body env cfg p (log (Dispatch p) s) = (r, s1)"
    by (cases "getHslStream_body env cfg p (log (Dispatch p) s)") auto
  with getHslStream_body_quiet [of env cfg p "log (Dispatch p) s"]
  obtain v evs where q: "r = Inr v" "trace s1 = trace s @ Dispatch p # evs"
    "concat (map dispatch_of evs) = []" "concat (map caught_of evs) \<noteq> [] \<longrightarrow> v = None"
    by (auto simp: quiet_def log_def)
  then show ?thesis
    by (simp add: getHslStream_def try_catch_def run)
qed

lemma getHslStream_Inr: "\<exists>v s'. getHslStream env cfg p s = (Inr v, s')"
  using getHslStream_summary [of env cfg p s] by blast

lemma getHslStream_dispatched:
  "getHslStream env cfg p s = (r, s') \<Longrightarrow> dispatched s' = dispatched s @ [p]"
  using getHslStream_summary [of env cfg p s] by (auto simp: dispatched_def)

lemma getHslStream_caught:
  "getHslStream env cfg p s = (r, s') \<Longrightarrow> caught s' \<noteq> caught s \<Longrightarrow> r = Inr None"
  using getHslStream_summary [of env cfg p s] by (auto simp: caught_def)

section \<open>Properties of the fallback loop\<close>

lemma getVideoInfo_Inr: "\<exists>v s'. getVideoInfo env cfg vid s = (Inr v, s')"
  using getVideoInfo_quiet [of env cfg vid s]
  by (cases "getVideoInfo env cfg vid s") (auto simp: quiet_def)

lemma resolve_loop_absent:
  "getHslStream env cfg p s = (Inr v, s') \<Longrightarrow> \<not> truthy v \<Longrightarrow>
   resolve_loop env cfg (p # ps) s = resolve_loop env cfg ps s'"
  by (auto simp: truthy_def split: option.splits)

lemma resolve_loop_present:
  "getHslStream env cfg p s = (Inr (Some u), s') \<Longrightarrow> u \<noteq> [] \<Longrightarrow>
   resolve_loop env cfg (p # ps) s = (Inr (c_redirect u), s')"
  by simp

lemma absent_run_loop:
  "absent_run env cfg pre s = Some s1 \<Longrightarrow>
   resolve_loop env cfg (pre @ rest) s = resolve_loop env cfg rest s1"
proof (induction pre arbitrary: s)
  case Nil
  then show ?case by simp
next
  case (Cons p pre)
  obtain v s' where run: "getHslStream env cfg p s = (Inr v, s')"
    using getHslStream_Inr by blast
  with Cons.prems have absent: "\<not> truthy v" and rest: "absent_run env cfg pre s' = Some s1"
    by (auto split: if_splits)
  have "resolve_loop env cfg ((p # pre) @ rest) s = resolve_loop env cfg (pre @ rest) s'"
    using resolve_loop_absent [OF run absent] by simp
  with Cons.IH [OF rest] show ?case by simp
qed

lemma absent_run_dispatched:
  "absent_run env cfg pre s = Some s1 \<Longrightarrow> dispatched s1 = dispatched s @ pre"
proof (induction pre arbitrary: s)
  case Nil
  then show ?case by simp
next
  case (Cons p pre)
  obtain v s' where run: "getHslStream env cfg p s = (Inr v, s')"
    using getHslStream_Inr by blast
  with Cons.prems have rest: "absent_run env cfg pre s' = Some s1"
    by (auto split: if_splits)
  from Cons.IH [OF rest] getHslStream_dispatched [OF run] show ?case by simp
qed

lemma loop_exhaustive:
  "(\<exists>s'. absent_run env cfg ps s = Some s') \<or>
   (\<exists>pre p post u s1 s2. ps = pre @ p # post \<and> absent_run env cfg pre s = Some s1 \<and>
      getHslStream env cfg p s1 = (Inr (Some u), s2) \<and> u \<noteq> [])"
proof (induction ps arbitrary: s)
  case Nil
  then show ?case by simp
next
  case (Cons p ps)
  obtain v s' where run: "getHslStream env cfg p s = (Inr v, s')"
    using getHslStream_Inr by blast
  show ?case
  proof (cases "truthy v")
    case True
    then obtain u where "v = Some u" "u \<noteq> []"
      by (auto simp: truthy_def split: option.splits)
    with run have "p # ps = [] @ p # ps \<and> absent_run env cfg [] s = Some s \<and>
        getHslStream env cfg p s = (Inr (Some u), s') \<and> u \<noteq> []"
      by simp
    then show ?thesis by blast
  next
    case False
    from Cons.IH [of s'] show ?thesis
    proof
      assume "\<exists>s''. absent_run env cfg ps s' = Some s''"
      with run False show ?thesis by simp
    next
      assume "\<exists>pre q post u s1 s2. ps = pre @ q # post \<and> absent_run env cfg pre s' = Some s1 \<and>
        getHslStream env cfg q s1 = (Inr (Some u), s2) \<and> u \<noteq> []"
      then obtain pre q post u s1 s2 where
        h: "ps = pre @ q # post" "absent_run env cfg pre s' = Some s1"
           "getHslStream env cfg q s1 = (Inr (Some u), s2)" "u \<noteq> []"
        by blast
      with run False have "p # ps = (p # pre) @ q # post \<and>
          absent_run env cfg (p # pre) s = Some s1 \<and>
          getHslStream env cfg q s1 = (Inr (Some u), s2) \<and> u \<noteq> []"
        by simp
      then show ?thesis by blast
    qed
  qed
qed

lemma main_handler_loop:
  "parse_params entries \<noteq> [] \<Longrightarrow>
   main_handler env cfg entries s = resolve_loop env cfg (parse_params entries) s"
  by (simp add: main_handler_def Let_def)

text \<open>
  C2. The loop hands the candidates to \<^verbatim>\<open>getHslStream\<close> in their order. When the
  candidates before \<open>p\<close> all come back falsy and \<open>p\<close> comes back with a stream URL, the
  answer is the redirect to that URL, the state is the one right after \<open>p\<close>, and the
  candidates handed over are exactly those up to \<open>p\<close>: none after it. When all come
  back falsy the answer is the one object \<open>No valid stream found!\<close> with status 404.
  One of the two always happens, and the handler runs this loop whenever the query
  has a candidate. A result counts as present when it is truthy, as in
  \<^verbatim>\<open>if (streamUrl)\<close>: a string that is not empty.
\<close>

theorem first_present_candidate_wins:
  "(absent_run env cfg pre s = Some s1 \<and>
    getHslStream env cfg p s1 = (Inr (Some u), s2) \<and> u \<noteq> [] \<longrightarrow>
      resolve_loop env cfg (pre @ p # post) s = (Inr (c_redirect u), s2) \<and>
      dispatched s2 = dispatched s @ pre @ [p]) \<and>
   (absent_run env cfg ps s = Some s' \<longrightarrow>
      resolve_loop env cfg ps s = (Inr no_valid_stream, s') \<and>
      dispatched s' = dispatched s @ ps) \<and>
   ((\<exists>s'. absent_run env cfg ps s = Some s') \<or>
    (\<exists>pre p post u s1 s2. ps = pre @ p # post \<and> absent_run env cfg pre s = Some s1 \<and>
       getHslStream env cfg p s1 = (Inr (Some u), s2) \<and> u \<noteq> [])) \<and>
   (parse_params entries \<noteq> [] \<longrightarrow>
      main_handler env cfg entries s = resolve_loop env cfg (parse_params entries) s) \<and>
   status_code (c_redirect u) = 302 \<and>
   no_valid_stream =
     c_json [(''success'', JBool False), (''error'', JString ''No valid stream found!'')] 404"
proof -
  have first: "resolve_loop env cfg (pre @ p # post) s = (Inr (c_redirect u), s2) \<and>
      dispatched s2 = dispatched s @ pre @ [p]"
    if h: "absent_run env cfg pre s = Some s1"
      "getHslStream env cfg p s1 = (Inr (Some u), s2)" "u \<noteq> []"
  proof -
    have "resolve_loop env cfg (pre @ p # post) s = resolve_loop env cfg (p # post) s1"
      by (rule absent_run_loop [OF h(1)])
    also have "\<dots> = (Inr (c_redirect u), s2)"
      by (rule resolve_loop_present [OF h(2,3)])
    finally show ?thesis
      using absent_run_dispatched [OF h(1)] getHslStream_dispatched [OF h(2)] by simp
  qed
  have none: "resolve_loop env cfg ps s = (Inr no_valid_stream, s') \<and>
      dispatched s' = dispatched s @ ps"
    if h: "absent_run env cfg ps s = Some s'"
    using absent_run_loop [OF h, of "[]"] absent_run_dispatched [OF h]
    by simp
  show ?thesis
    using first none loop_exhaustive [of env cfg ps s] main_handler_loop [of entries env cfg s]
    by (simp add: no_valid_stream_def)
qed

lemmas run_defs =
  getHslStream_def getHslStream_body_def try_catch_def log_def
  validateStream_def validateStream_fn_def validateStream_body_def probe_def do_fetch_def
  outbound_headers_def clean_url_def customHeaderKey_def
  getVideoInfo_def getVideoInfo_fn_def do_getInfo_def
  getVideoId_def getVideoId_fn_def do_resolveURL_def
  memoize_def cache_get_def cache_delete_def USE_CACHE_def MINUTE_def Let_def
  demo_platform_def demo_URL_toString_def demo_fetch_def demo_resolveURL_def demo_getInfo_def
  default_config_def fresh_def

lemma demo_v_abc:
  "getHslStream demo_platform default_config \<lparr>param_type = ''v'', param_value = ''abc''\<rparr> (fresh 0) =
     (Inr None,
      \<lparr>world = 0,
       stores = (\<lambda>st. [])(VIDEO_INFO_CACHE := [(''video:abc'', None, 0)]),
       trace = [Dispatch \<lparr>param_type = ''v'', param_value = ''abc''\<rparr>,
                Invoke_getVideoInfo ''abc'', Call_getInfo ''abc'']\<rparr>)"
  by (simp add: run_defs)

lemma demo_c_x:
  "getHslStream demo_platform default_config \<lparr>param_type = ''c'', param_value = ''@x''\<rparr>
     \<lparr>world = 0,
      stores = (\<lambda>st. [])(VIDEO_INFO_CACHE := [(''video:abc'', None, 0)]),
      trace = [Dispatch \<lparr>param_type = ''v'', param_value = ''abc''\<rparr>,
               Invoke_getVideoInfo ''abc'', Call_getInfo ''abc'']\<rparr> =
     (Inr (Some ''https://m.example/live.m3u8''),
      \<lparr>world = 0,
       stores = (\<lambda>st. [])(VIDEO_INFO_CACHE :=
         [(''video:abc'', None, 0),
          (''resolve:https://www.youtube.com/@x/live'', Some ''live1'', 0),
          (''video:live1'', Some ''https://m.example/live.m3u8'', 0)]),
       trace = [Dispatch \<lparr>param_type = ''v'', param_value = ''abc''\<rparr>,
                Invoke_getVideoInfo ''abc'', Call_getInfo ''abc'',
                Dispatch \<lparr>param_type = ''c'', param_value = ''@x''\<rparr>,
                Invoke_getVideoId ''https://www.youtube.com/@x/live'',
                Call_resolveURL ''https://www.youtube.com/@x/live'',
                Invoke_getVideoInfo ''live1'', Call_getInfo ''live1'']\<rparr>)"
  by (simp add: run_defs)

lemma demo_x_gone:
  "getHslStream demo_platform default_config \<lparr>param_type = ''x'', param_value = ''http://gone/''\<rparr>
     \<lparr>world = 0,
      stores = (\<lambda>st. [])(VIDEO_INFO_CACHE := [(''video:abc'', None, 0)]),
      trace = [Dispatch \<lparr>param_type = ''v'', param_value = ''abc''\<rparr>,
               Invoke_getVideoInfo ''abc'', Call_getInfo ''abc'']\<rparr> =
     (Inr None,
      \<lparr>world = 0,
       stores = (\<lambda>st. [])(VIDEO_INFO_CACHE := [(''video:abc'', None, 0)],
                             STREAM_VALIDATION_CACHE := [(''stream:http://gone/'', None, 0)]),
       trace = [Dispatch \<lparr>param_type = ''v'', param_value = ''abc''\<rparr>,
                Invoke_getVideoInfo ''abc'', Call_getInfo ''abc'',
                Dispatch \<lparr>param_type = ''x'', param_value = ''http://gone/''\<rparr>,
                Invoke_validateStream ''http://gone/'',
                Call_fetch \<lparr>req_url = ''http://gone/'', req_method = HEAD,
                            req_headers = Some [(''user-agent'', ''Mozilla/5.0'')]\<rparr>]\<rparr>)"
  by (simp add: run_defs demo_url_plain)

lemma demo_entries:
  "parse_params [(''v'', ''abc''), (''c'', ''@x''), (''x'', ''http://u/'')] =
     [] @ \<lparr>param_type = ''v'', param_value = ''abc''\<rparr> #
     [\<lparr>param_type = ''c'', param_value = ''@x''\<rparr>, \<lparr>param_type = ''x'', param_value = ''http://u/''\<rparr>]"
  "parse_params [(''v'', ''abc''), (''x'', ''http://gone/'')] =
     [\<lparr>param_type = ''v'', param_value = ''abc''\<rparr>,
      \<lparr>param_type = ''x'', param_value = ''http://gone/''\<rparr>]"
  "parse_params [(''v'', ''err''), (''c'', ''@x'')] =
     [\<lparr>param_type = ''v'', param_value = ''err''\<rparr>, \<lparr>param_type = ''c'', param_value = ''@x''\<rparr>]"
  by (simp_all add: parse_params_def parse_step_def allowedParams_def)

theorem first_present_candidate_wins_witness:
  "main_handler demo_platform default_config
     [(''v'', ''abc''), (''c'', ''@x''), (''x'', ''http://u/'')] (fresh 0) =
     (Inr (c_redirect ''https://m.example/live.m3u8''),
      \<lparr>world = 0,
       stores = (\<lambda>st. [])(VIDEO_INFO_CACHE :=
         [(''video:abc'', None, 0),
          (''resolve:https://www.youtube.com/@x/live'', Some ''live1'', 0),
          (''video:live1'', Some ''https://m.example/live.m3u8'', 0)]),
       trace = [Dispatch \<lparr>param_type = ''v'', param_value = ''abc''\<rparr>,
                Invoke_getVideoInfo ''abc'', Call_getInfo ''abc'',
                Dispatch \<lparr>param_type = ''c'', param_value = ''@x''\<rparr>,
                Invoke_getVideoId ''https://www.youtube.com/@x/live'',
                Call_resolveURL ''https://www.youtube.com/@x/live'',
                Invoke_getVideoInfo ''live1'', Call_getInfo ''live1'']\<rparr>) \<and>
   fst (main_handler demo_platform default_config
     [(''v'', ''abc''), (''x'', ''http://gone/'')] (fresh 0)) = Inr no_valid_stream \<and>
   dispatched (snd (main_handler demo_platform default_config
     [(''v'', ''abc''), (''x'', ''http://gone/'')] (fresh 0))) =
     [\<lparr>param_type = ''v'', param_value = ''abc''\<rparr>,
      \<lparr>param_type = ''x'', param_value = ''http://gone/''\<rparr>]"
proof -
  let ?v = "\<lparr>param_type = ''v'', param_value = ''abc''\<rparr>"
  let ?c = "\<lparr>param_type = ''c'', param_value = ''@x''\<rparr>"
  let ?x = "\<lparr>param_type = ''x'', param_value = ''http://u/''\<rparr>"
  let ?g = "\<lparr>param_type = ''x'', param_value = ''http://gone/''\<rparr>"
  let ?s1 = "\<lparr>world = 0,
      stores = (\<lambda>st. [])(VIDEO_INFO_CACHE := [(''video:abc'', None, 0)]),
      trace = [Dispatch ?v, Invoke_getVideoInfo ''abc'', Call_getInfo ''abc'']\<rparr>"
  let ?s2 = "snd (getHslStream demo_platform default_config ?c ?s1)"
  let ?s3 = "snd (getHslStream demo_platform default_config ?g ?s1)"
  have a1: "absent_run demo_platform default_config [?v] (fresh 0) = Some ?s1"
    by (simp add: demo_v_abc truthy_def)
  have a2: "getHslStream demo_platform default_config ?c ?s1 =
      (Inr (Some ''https://m.example/live.m3u8''), ?s2)"
    by (simp add: demo_c_x)
  have a3: "absent_run demo_platform default_config [?v, ?g] (fresh 0) = Some ?s3"
    by (simp add: demo_v_abc demo_x_gone truthy_def)
  have d0: "dispatched (fresh 0) = []"
    by (simp add: dispatched_def fresh_def)
  have e1: "parse_params [(''v'', ''abc''), (''c'', ''@x''), (''x'', ''http://u/'')] = [?v] @ ?c # [?x]"
    and e2: "parse_params [(''v'', ''abc''), (''x'', ''http://gone/'')] = [?v, ?g]"
    by (simp_all add: demo_entries)
  from first_present_candidate_wins [where env = demo_platform and cfg = default_config
      and pre = "[?v]" and p = ?c and post = "[?x]" and s = "fresh 0" and ?s1.0 = ?s1
      and u = "''https://m.example/live.m3u8''" and ?s2.0 = ?s2
      and entries = "[(''v'', ''abc''), (''c'', ''@x''), (''x'', ''http://u/'')]"] a1 a2 e1
  have k1: "main_handler demo_platform default_config
      [(''v'', ''abc''), (''c'', ''@x''), (''x'', ''http://u/'')] (fresh 0) =
      (Inr (c_redirect ''https://m.example/live.m3u8''), ?s2)"
    by simp
  from first_present_candidate_wins [where env = demo_platform and cfg = default_config
      and ps = "[?v, ?g]" and s = "fresh 0" and s' = ?s3
      and entries = "[(''v'', ''abc''), (''x'', ''http://gone/'')]"] a3 e2 d0
  have k2: "main_handler demo_platform default_config
      [(''v'', ''abc''), (''x'', ''http://gone/'')] (fresh 0) = (Inr no_valid_stream, ?s3)"
    and k3: "dispatched ?s3 = [?v, ?g]"
    by simp_all
  show ?thesis
    using k1 k2 k3 by (simp add: demo_c_x)
qed

lemma main_handler_responses:
  "\<exists>resp s'. main_handler env cfg entries s = (Inr resp, s') \<and>
     (resp = server_running env cfg s \<or> resp = no_valid_stream \<or> (\<exists>u. resp = c_redirect u))"
proof (cases "parse_params entries = []")
  case True
  then show ?thesis by (simp add: main_handler_def)
next
  case False
  from loop_exhaustive [of env cfg "parse_params entries" s] show ?thesis
  proof
    assume "\<exists>s'. absent_run env cfg (parse_params entries) s = Some s'"
    then obtain s' where h: "absent_run env cfg (parse_params entries) s = Some s'"
      by blast
    from absent_run_loop [OF h, of "[]"] main_handler_loop [OF False, of env cfg s]
    show ?thesis by simp
  next
    assume "\<exists>pre p post u s1 s2. parse_params entries = pre @ p # post \<and>
      absent_run env cfg pre s = Some s1 \<and>
      getHslStream env cfg p s1 = (Inr (Some u), s2) \<and> u \<noteq> []"
    then obtain pre p post u s1 s2 where
      h: "parse_params entries = pre @ p # post" "absent_run env cfg pre s = Some s1"
         "getHslStream env cfg p s1 = (Inr (Some u), s2)" "u \<noteq> []"
      by blast
    from absent_run_loop [OF h(2), of "p # post"] resolve_loop_present [OF h(3,4), of post]
      main_handler_loop [OF False, of env cfg s] h(1)
    show ?thesis by simp
  qed
qed

text \<open>
  C5. \<^verbatim>\<open>getHslStream\<close> never throws, whatever the platform does and whatever the caches
  hold. When an exception was caught while it ran (validation, id resolution or
  manifest fetch), its result is \<^verbatim>\<open>undefined\<close>, and the loop goes on with the next
  candidate from the state it left. The handler always answers, with the info
  object, a redirect or the one 404 object. A rejected platform call makes the function
  that issued it return \<^verbatim>\<open>undefined\<close> after printing the error.
\<close>

theorem candidate_failure_is_absence:
  "(\<exists>v s'. getHslStream env cfg p s = (Inr v, s')) \<and>
   (getHslStream env cfg p s = (r, s') \<and> caught s' \<noteq> caught s \<longrightarrow> r = Inr None) \<and>
   (getHslStream env cfg p s = (Inr v, s') \<and> \<not> truthy v \<longrightarrow>
      resolve_loop env cfg (p # ps) s = resolve_loop env cfg ps s') \<and>
   (\<exists>resp s'. main_handler env cfg entries s = (Inr resp, s') \<and>
      (resp = server_running env cfg s \<or> resp = no_valid_stream \<or> (\<exists>u. resp = c_redirect u))) \<and>
   (validateStream_body env cfg u s = (Inl e, s') \<longrightarrow>
      validateStream_fn env cfg u s = (Inr None, s'\<lparr>trace := trace s' @ [Console_error e]\<rparr>)) \<and>
   (resolveURL env u (world s) = (Inl e, w') \<longrightarrow>
      getVideoId_fn env u s =
        (Inr None, s\<lparr>world := w', trace := trace s @ [Call_resolveURL u, Console_error e]\<rparr>)) \<and>
   (getInfo env vid (world s) = (Inl e, w') \<longrightarrow>
      getVideoInfo_fn env vid s =
        (Inr None, s\<lparr>world := w', trace := trace s @ [Call_getInfo vid, Console_error e]\<rparr>))"
proof -
  have a: "getHslStream env cfg p s = (r, s') \<and> caught s' \<noteq> caught s \<longrightarrow> r = Inr None"
    using getHslStream_caught by blast
  have b: "getHslStream env cfg p s = (Inr v, s') \<and> \<not> truthy v \<longrightarrow>
      resolve_loop env cfg (p # ps) s = resolve_loop env cfg ps s'"
    using resolve_loop_absent by blast
  have c: "validateStream_body env cfg u s = (Inl e, s') \<longrightarrow>
      validateStream_fn env cfg u s = (Inr None, s'\<lparr>trace := trace s' @ [Console_error e]\<rparr>)"
    by (simp add: validateStream_fn_def try_catch_def log_def)
  have d: "resolveURL env u (world s) = (Inl e, w') \<longrightarrow>
      getVideoId_fn env u s =
        (Inr None, s\<lparr>world := w', trace := trace s @ [Call_resolveURL u, Console_error e]\<rparr>)"
    by (simp add: getVideoId_fn_def try_catch_def do_resolveURL_def log_def)
  have e: "getInfo env vid (world s) = (Inl e, w') \<longrightarrow>
      getVideoInfo_fn env vid s =
        (Inr None, s\<lparr>world := w', trace := trace s @ [Call_getInfo vid, Console_error e]\<rparr>)"
    by (simp add: getVideoInfo_fn_def try_catch_def do_getInfo_def log_def)
  show ?thesis
    using getHslStream_Inr [of env cfg p s] a b main_handler_responses [of env cfg entries s] c d e
    by blast
qed

lemma demo_v_err:
  "getHslStream demo_platform default_config \<lparr>param_type = ''v'', param_value = ''err''\<rparr> (fresh 0) =
     (Inr None,
      \<lparr>world = 0,
       stores = (\<lambda>st. [])(VIDEO_INFO_CACHE := [(''video:err'', None, 0)]),
       trace = [Dispatch \<lparr>param_type = ''v'', param_value = ''err''\<rparr>,
                Invoke_getVideoInfo ''err'', Call_getInfo ''err'',
                Console_error (Exn ''info failed'')]\<rparr>)"
  by (simp add: run_defs)

lemma demo_err_then_x:
  "main_handler demo_platform default_config [(''v'', ''err''), (''c'', ''@x'')] (fresh 0) =
     (Inr (c_redirect ''https://m.example/live.m3u8''),
      \<lparr>world = 0,
       stores = (\<lambda>st. [])(VIDEO_INFO_CACHE :=
         [(''video:err'', None, 0),
          (''resolve:https://www.youtube.com/@x/live'', Some ''live1'', 0),
          (''video:live1'', Some ''https://m.example/live.m3u8'', 0)]),
       trace = [Dispatch \<lparr>param_type = ''v'', param_value = ''err''\<rparr>,
                Invoke_getVideoInfo ''err'', Call_getInfo ''err'',
                Console_error (Exn ''info failed''),
                Dispatch \<lparr>param_type = ''c'', param_value = ''@x''\<rparr>,
                Invoke_getVideoId ''https://www.youtube.com/@x/live'',
                Call_resolveURL ''https://www.youtube.com/@x/live'',
                Invoke_getVideoInfo ''live1'', Call_getInfo ''live1'']\<rparr>)"
  by (simp add: main_handler_def demo_entries run_defs)

theorem candidate_failure_is_absence_witness:
  "getInfo demo_platform ''err'' (world (fresh 0)) = (Inl (Exn ''info failed''), 0) \<and>
   getVideoInfo_fn demo_platform ''err'' (fresh 0) =
     (Inr None,
      \<lparr>world = 0, stores = (\<lambda>st. []),
       trace = [Call_getInfo ''err'', Console_error (Exn ''info failed'')]\<rparr>) \<and>
   caught (snd (getHslStream demo_platform default_config
     \<lparr>param_type = ''v'', param_value = ''err''\<rparr> (fresh 0))) = [Exn ''info failed''] \<and>
   caught (fresh 0) = [] \<and>
   fst (getHslStream demo_platform default_config \<lparr>param_type = ''v'', param_value = ''err''\<rparr> (fresh 0)) =
     Inr None \<and>
   fst (main_handler demo_platform default_config [(''v'', ''err''), (''c'', ''@x'')] (fresh 0)) =
     Inr (c_redirect ''https://m.example/live.m3u8'')"
proof -
  let ?p = "\<lparr>param_type = ''v'', param_value = ''err''\<rparr>"
  let ?G = "getHslStream demo_platform default_config ?p (fresh 0)"
  have h1: "getInfo demo_platform ''err'' (world (fresh 0)) = (Inl (Exn ''info failed''), 0)"
    by (simp add: demo_platform_def demo_getInfo_def fresh_def)
  have h2: "caught (snd ?G) = [Exn ''info failed'']"
    by (simp add: demo_v_err caught_def)
  have h3: "caught (fresh 0) = []"
    by (simp add: caught_def fresh_def)
  have h4: "fst (main_handler demo_platform default_config [(''v'', ''err''), (''c'', ''@x'')] (fresh 0)) =
     Inr (c_redirect ''https://m.example/live.m3u8'')"
    by (simp add: demo_err_then_x)
  from candidate_failure_is_absence [where env = demo_platform and vid = "''err''"
      and s = "fresh 0" and e = "Exn ''info failed''" and w' = 0] h1
  have k1: "getVideoInfo_fn demo_platform ''err'' (fresh 0) =
      (Inr None, (fresh 0)\<lparr>world := 0,
         trace := trace (fresh 0) @ [Call_getInfo ''err'', Console_error (Exn ''info failed'')]\<rparr>)"
    by blast
  from candidate_failure_is_absence [where env = demo_platform and cfg = default_config
      and p = ?p and s = "fresh 0" and r = "fst ?G" and s' = "snd ?G"] h2 h3
  have k2: "fst ?G = Inr None"
    by simp
  show ?thesis
    using h1 h2 h3 h4 k1 k2 by (simp add: fresh_def)
qed

lemma getVideoId_manifest:
  "getVideoId env cfg u s = (r, s') \<Longrightarrow>
   (\<exists>v. r = Inr v) \<and> manifest_calls s' = manifest_calls s \<and>
   (\<exists>evs. trace s' = trace s @ Invoke_getVideoId u # evs)"
  by (drule getVideoId_cases) (auto simp: manifest_calls_def)

text \<open>
  C6. For a candidate of type \<open>c\<close>, \<^verbatim>\<open>getHslStream\<close> calls the memoized \<^verbatim>\<open>getVideoId\<close> with
  \<open>https://www.youtube.com/<handle>/live\<close>. When that yields a falsy id the candidate
  yields \<^verbatim>\<open>undefined\<close>, in the state \<^verbatim>\<open>getVideoId\<close> left, and neither \<^verbatim>\<open>getVideoInfo\<close>
  nor \<^verbatim>\<open>session.getInfo\<close> has been called; when it yields an id, the candidate yields
  what the memoized \<^verbatim>\<open>getVideoInfo\<close> yields for that id.
\<close>

theorem by_handle_resolution:
  "param_type p = ''c'' \<Longrightarrow>
   \<exists>vid s1.
     getVideoId env cfg (''https://www.youtube.com/'' @ param_value p @ ''/live'')
       (log (Dispatch p) s) = (Inr vid, s1) \<and>
     (\<exists>evs. trace s1 =
        trace s @ Dispatch p #
          Invoke_getVideoId (''https://www.youtube.com/'' @ param_value p @ ''/live'') # evs) \<and>
     manifest_calls s1 = manifest_calls s \<and>
     (\<not> truthy vid \<longrightarrow> getHslStream env cfg p s = (Inr None, s1)) \<and>
     (\<forall>v. vid = Some v \<and> v \<noteq> [] \<longrightarrow> getHslStream env cfg p s = getVideoInfo env cfg v s1)"
proof -
  assume c: "param_type p = ''c''"
  let ?u = "''https://www.youtube.com/'' @ param_value p @ ''/live''"
  obtain r s1 where run: "getVideoId env cfg ?u (log (Dispatch p) s) = (r, s1)"
    by (cases "getVideoId env cfg ?u (log (Dispatch p) s)") auto
  from getVideoId_manifest [OF run] obtain vid evs where
    r: "r = Inr vid" and m: "manifest_calls s1 = manifest_calls (log (Dispatch p) s)"
    and tr: "trace s1 = trace (log (Dispatch p) s) @ Invoke_getVideoId ?u # evs"
    by blast
  have m': "manifest_calls s1 = manifest_calls s"
    using m by (simp add: manifest_calls_def log_def)
  have tr': "\<exists>evs. trace s1 = trace s @ Dispatch p # Invoke_getVideoId ?u # evs"
    using tr by (simp add: log_def)
  have absent: "getHslStream env cfg p s = (Inr None, s1)" if "\<not> truthy vid"
    using that c run r
    by (auto simp: getHslStream_def getHslStream_body_def try_catch_def truthy_def
        split: option.splits)
  have present: "getHslStream env cfg p s = getVideoInfo env cfg v s1" if "vid = Some v" "v \<noteq> []" for v
  proof -
    obtain w s2 where info: "getVideoInfo env cfg v s1 = (Inr w, s2)"
      using getVideoInfo_Inr by blast
    with that c run r show ?thesis
      by (simp add: getHslStream_def getHslStream_body_def try_catch_def)
  qed
  show ?thesis
    using run r m' tr' absent present by auto
qed

lemma demo_c_nobody:
  "getVideoId demo_platform default_config ''https://www.youtube.com/@nobody/live''
     (log (Dispatch \<lparr>param_type = ''c'', param_value = ''@nobody''\<rparr>) (fresh 0)) =
     (Inr None,
      \<lparr>world = 0,
       stores = (\<lambda>st. [])(VIDEO_INFO_CACHE :=
         [(''resolve:https://www.youtube.com/@nobody/live'', None, 0)]),
       trace = [Dispatch \<lparr>param_type = ''c'', param_value = ''@nobody''\<rparr>,
                Invoke_getVideoId ''https://www.youtube.com/@nobody/live'',
                Call_resolveURL ''https://www.youtube.com/@nobody/live'']\<rparr>)"
  by (simp add: run_defs)

theorem by_handle_resolution_witness:
  "param_type \<lparr>param_type = ''c'', param_value = ''@nobody''\<rparr> = ''c'' \<and>
   getHslStream demo_platform default_config \<lparr>param_type = ''c'', param_value = ''@nobody''\<rparr> (fresh 0) =
     (Inr None,
      \<lparr>world = 0,
       stores = (\<lambda>st. [])(VIDEO_INFO_CACHE :=
         [(''resolve:https://www.youtube.com/@nobody/live'', None, 0)]),
       trace = [Dispatch \<lparr>param_type = ''c'', param_value = ''@nobody''\<rparr>,
                Invoke_getVideoId ''https://www.youtube.com/@nobody/live'',
                Call_resolveURL ''https://www.youtube.com/@nobody/live'']\<rparr>)"
proof -
  let ?p = "\<lparr>param_type = ''c'', param_value = ''@nobody''\<rparr>"
  have h: "param_type ?p = ''c''"
    by simp
  from by_handle_resolution [OF h, of demo_platform default_config "fresh 0"]
  obtain vid s1 where
    run: "getVideoId demo_platform default_config ''https://www.youtube.com/@nobody/live''
            (log (Dispatch ?p) (fresh 0)) = (Inr vid, s1)"
    and absent: "\<not> truthy vid \<longrightarrow> getHslStream demo_platform default_config ?p (fresh 0) = (Inr None, s1)"
    by auto
  from run have "vid = None" and "s1 = \<lparr>world = 0,
       stores = (\<lambda>st. [])(VIDEO_INFO_CACHE :=
         [(''resolve:https://www.youtube.com/@nobody/live'', None, 0)]),
       trace = [Dispatch ?p,
                Invoke_getVideoId ''https://www.youtube.com/@nobody/live'',
                Call_resolveURL ''https://www.youtube.com/@nobody/live'']\<rparr>"
    by (simp_all add: demo_c_nobody)
  with absent show ?thesis
    by (simp add: truthy_def)
qed

section \<open>Which cache is which\<close>

text \<open>
  C1 says that the results of \<^verbatim>\<open>validateStream\<close> expire by age and that those of
  \<^verbatim>\<open>getVideoInfo\<close> and \<^verbatim>\<open>getVideoId\<close> are evicted by capacity only. The code constructs
  the caches the other way round. A lookup in \<^verbatim>\<open>STREAM_VALIDATION_CACHE\<close> does not depend
  on the time, and an insertion keeps it within its capacity (or its former size); an
  entry of \<^verbatim>\<open>VIDEO_INFO_CACHE\<close> is gone once \<^verbatim>\<open>VIDEO_INFO_CACHE_SIZE\<close> minutes have passed,
  and an insertion never evicts another key. With no environment variable set, the
  cache of \<^verbatim>\<open>validateStream\<close> is an \<^verbatim>\<open>LruCache\<close> of 1800000 entries and that of the other
  two a \<^verbatim>\<open>TtlCache\<close> of 6000000000 milliseconds: a URL validated at time 0 is still
  answered from the cache one millisecond after 30 minutes (one \<^verbatim>\<open>fetch\<close> in all), and
  a manifest looked up at time 0 is fetched again 100000 minutes later.
\<close>

theorem cache_policies_as_constructed:
  "cache_get (cache_class_of cfg STREAM_VALIDATION_CACHE) now key es =
     map_option fst (map_of es key) \<and>
   length (cache_set (cache_class_of cfg STREAM_VALIDATION_CACHE) now key v es) \<le>
     max (length es) (STREAM_VALIDATION_CACHE_TTL cfg * MINUTE) \<and>
   cache_get (cache_class_of cfg VIDEO_INFO_CACHE)
     (t + VIDEO_INFO_CACHE_SIZE cfg * MINUTE) key [(key, v, t)] = None \<and>
   cache_set (cache_class_of cfg VIDEO_INFO_CACHE) now key v es =
     cache_delete key es @ [(key, v, now)] \<and>
   cache_class_of default_config STREAM_VALIDATION_CACHE = LruCache 1800000 \<and>
   cache_class_of default_config VIDEO_INFO_CACHE = TtlCache 6000000000 \<and>
   platform_calls
     (snd (validateStream demo_platform default_config ''http://u/''
        ((snd (validateStream demo_platform default_config ''http://u/'' (fresh 0)))
           \<lparr>world := 30 * MINUTE + 1\<rparr>))) =
     [Call_fetch \<lparr>req_url = ''http://u/'', req_method = HEAD,
                  req_headers = Some [(''user-agent'', ''Mozilla/5.0'')]\<rparr>] \<and>
   platform_calls
     (snd (getVideoInfo demo_platform default_config ''live1''
        ((snd (getVideoInfo demo_platform default_config ''live1'' (fresh 0)))
           \<lparr>world := 100000 * MINUTE\<rparr>))) =
     [Call_getInfo ''live1'', Call_getInfo ''live1'']"
proof -
  have "length (cache_delete key es) \<le> length es"
    by (simp add: cache_delete_def)
  then have bound:
    "length (cache_set (cache_class_of cfg STREAM_VALIDATION_CACHE) now key v es) \<le>
       max (length es) (STREAM_VALIDATION_CACHE_TTL cfg * MINUTE)"
    by (auto simp: Let_def)
  have general:
    "cache_get (cache_class_of cfg STREAM_VALIDATION_CACHE) now key es =
       map_option fst (map_of es key)"
    "cache_get (cache_class_of cfg VIDEO_INFO_CACHE)
       (t + VIDEO_INFO_CACHE_SIZE cfg * MINUTE) key [(key, v, t)] = None"
    "cache_set (cache_class_of cfg VIDEO_INFO_CACHE) now key v es =
       cache_delete key es @ [(key, v, now)]"
    by (simp_all add: cache_get_def)
  have defaults:
    "cache_class_of default_config STREAM_VALIDATION_CACHE = LruCache 1800000"
    "cache_class_of default_config VIDEO_INFO_CACHE = TtlCache 6000000000"
    by (simp_all add: default_config_def MINUTE_def)
  have runs:
    "platform_calls
       (snd (validateStream demo_platform default_config ''http://u/''
          ((snd (validateStream demo_platform default_config ''http://u/'' (fresh 0)))
             \<lparr>world := 30 * MINUTE + 1\<rparr>))) =
       [Call_fetch \<lparr>req_url = ''http://u/'', req_method = HEAD,
                    req_headers = Some [(''user-agent'', ''Mozilla/5.0'')]\<rparr>]"
    "platform_calls
       (snd (getVideoInfo demo_platform default_config ''live1''
          ((snd (getVideoInfo demo_platform default_config ''live1'' (fresh 0)))
             \<lparr>world := 100000 * MINUTE\<rparr>))) =
       [Call_getInfo ''live1'', Call_getInfo ''live1'']"
    by (simp_all add: run_defs demo_url_plain platform_calls_def)
  show ?thesis
    using bound general defaults runs by simp
qed

end
